theory Spec2Isabelle
  imports Complex_Main "HOL-Library.Signed_Division" "HOL-Library.Multiset"
begin

section \<open>Data model (chart.go)\<close>

text \<open>
  The Go struct \<^verbatim>\<open>Planet\<close>. Go strings are byte strings, here \<^typ>\<open>string\<close>.
\<close>

record Planet =
  Rashi :: string
  IsRetrograde :: bool
  IsCombust :: bool
  IsUpagraha :: bool
  Display :: string

text \<open>
  The Go struct \<^verbatim>\<open>ChartInput\<close>. \<^verbatim>\<open>ChartType\<close> is a string type. A pointer
  \<^verbatim>\<open>*Planet\<close> is a \<^typ>\<open>Planet option\<close>, \<open>None\<close> being the nil pointer;
  the Go map \<^verbatim>\<open>map[string]*Planet\<close> is a partial function to such pointers (a nil
  map has no keys and is the empty map).
\<close>

record ChartInput =
  ChartType :: string
  Planets :: "string \<rightharpoonup> Planet option"
  Lagna :: "Planet option"
  CenterText :: string

definition ChartTypeNorth :: string where "ChartTypeNorth = ''north''"
definition ChartTypeSouth :: string where "ChartTypeSouth = ''south''"
definition ChartTypeEast :: string where "ChartTypeEast = ''east''"
definition ChartTypeWest :: string where "ChartTypeWest = ''west''"

section \<open>What the code calls but does not define\<close>

text \<open>
  A Go \<^verbatim>\<open>error\<close> value is identified by its message.
  A run-time panic is not a returned error: it is the left summand of every result below.
\<close>

datatype error = Error string

datatype panic = NilPointerDereference

text \<open>
  The drawing surface is the \<^verbatim>\<open>gg.Context\<close>: an image is the sequence of calls made
  on a fresh 800 by 800 context. The font helpers of fonts.go set the face of the context
  (the embedded face, or the built-in one when parsing fails) and never fail.
  Coordinates are \<^verbatim>\<open>float64\<close> in Go and \<^typ>\<open>real\<close> here: the coordinates of the
  labels are whole or half numbers, exact in both; the frame of the North chart uses
  \<open>sqrt 2\<close> and \<open>pi\<close>, whose rounding is not modelled.
\<close>

datatype cmd =
    SetRGB real real real
  | Clear
  | SetLineWidth real
  | DrawRectangle real real real real
  | DrawLine real real real real
  | Stroke
  | Push
  | Pop
  | Translate real real
  | Rotate real
  | LoadMatangiRegular real
  | LoadMatangiBold real
  | DrawStringAnchored string real real real real

text \<open>
  The functions that the code calls and that the files verified here do not define are
  parameters: \<^verbatim>\<open>strings.ToLower\<close>, \<^verbatim>\<open>png.Encode\<close> (applied to the image of the
  context) and \<^verbatim>\<open>base64.StdEncoding.EncodeToString\<close> of the Go library, and
  \<^verbatim>\<open>IsSpecialLagnaAbbrev(abbrev, input)\<close>, which the three collection loops call.
\<close>

record env =
  ToLower :: "string \<Rightarrow> string"
  IsSpecialLagnaAbbrev :: "string \<Rightarrow> ChartInput \<Rightarrow> bool"
  png_Encode :: "cmd list \<Rightarrow> error + string"
  EncodeToString :: "string \<Rightarrow> string"

text \<open>
  \<^verbatim>\<open>strings.ToLower\<close> on ASCII text, for the concrete runs below.
\<close>

definition asciiLowerChar :: "char \<Rightarrow> char" where
  "asciiLowerChar c =
     (case map_of (zip ''ABCDEFGHIJKLMNOPQRSTUVWXYZ'' ''abcdefghijklmnopqrstuvwxyz'') c of
        Some l \<Rightarrow> l
      | None \<Rightarrow> c)"

definition asciiToLower :: "string \<Rightarrow> string" where
  "asciiToLower s = map asciiLowerChar s"

text \<open>
  \<^verbatim>\<open>fmt.Sprintf("%d", n)\<close>: the decimal digits, with a minus sign below zero.
\<close>

function digits :: "nat \<Rightarrow> string" where
  "digits n = (if n < 10 then [''0123456789'' ! n]
               else digits (n div 10) @ [''0123456789'' ! (n mod 10)])"
  by pat_completeness auto
termination
  by (relation "measure id") auto

declare digits.simps [simp del]

definition Sprintf_d :: "int \<Rightarrow> string" where
  "Sprintf_d n = (if n < 0 then CHR ''-'' # digits (nat (- n)) else digits (nat n))"

text \<open>
  \<^verbatim>\<open>strings.Contains\<close>.
\<close>

fun Contains :: "string \<Rightarrow> string \<Rightarrow> bool" where
  "Contains [] substr = (substr = [])"
| "Contains (c # s) substr = (take (length substr) (c # s) = substr \<or> Contains s substr)"

text \<open>
  \<^verbatim>\<open>strings.Split(s, "\n")\<close>.
\<close>

fun SplitLines :: "string \<Rightarrow> string list" where
  "SplitLines [] = [[]]"
| "SplitLines (c # s) =
     (if c = CHR 0x0A then [] # SplitLines s
      else (case SplitLines s of [] \<Rightarrow> [[c]] | l # ls \<Rightarrow> (c # l) # ls))"

section \<open>Sign and planet registry (chart.go)\<close>

definition rashiMap :: "(string \<times> int) list" where
  "rashiMap =
     [(''aries'', 1), (''taurus'', 2), (''gemini'', 3), (''cancer'', 4), (''leo'', 5),
      (''virgo'', 6), (''libra'', 7), (''scorpio'', 8), (''sagittarius'', 9),
      (''capricorn'', 10), (''aquarius'', 11), (''pisces'', 12)]"

definition RashiToNumber :: "env \<Rightarrow> string \<Rightarrow> int" where
  "RashiToNumber env rashi =
     (let r = ToLower env rashi
      in case map_of rashiMap r of Some num \<Rightarrow> num | None \<Rightarrow> 0)"

definition abbrevMap :: "(string \<times> string) list" where
  "abbrevMap =
     [(''sun'', ''Su''), (''moon'', ''Mo''), (''mars'', ''Ma''), (''mercury'', ''Me''),
      (''jupiter'', ''Ju''), (''venus'', ''Ve''), (''saturn'', ''Sa''), (''rahu'', ''Ra''),
      (''ketu'', ''Ke''), (''lagna'', ''Asc''),
      (''upaketu'', ''Up''), (''mandi'', ''Mn''), (''gulika'', ''Gu''),
      (''yamaghantaka'', ''Ya''), (''ardhaprahara'', ''Ar''), (''kala'', ''Ka''),
      (''dhuma'', ''Dh''), (''vyatipata'', ''Vy''), (''parivesha'', ''Pa''),
      (''indrachapa'', ''In''), (''upagraha'', ''Up'')]"

text \<open>A Go map read at a missing key gives the zero value, here the empty string.\<close>

definition GetPlanetAbbreviation :: "env \<Rightarrow> string \<Rightarrow> string" where
  "GetPlanetAbbreviation env planetName =
     (case map_of abbrevMap (ToLower env planetName) of Some a \<Rightarrow> a | None \<Rightarrow> [])"

definition GetPlanetDisplayName :: "env \<Rightarrow> string \<Rightarrow> Planet option \<Rightarrow> string" where
  "GetPlanetDisplayName env planetName planet =
     (case planet of
        Some p \<Rightarrow> if Display p \<noteq> [] then Display p else GetPlanetAbbreviation env planetName
      | None \<Rightarrow> GetPlanetAbbreviation env planetName)"

section \<open>Ascendant sign and occupants of a slot\<close>

text \<open>
  \<^verbatim>\<open>lagnaRashiNum\<close> of GenerateNorthChart and \<^verbatim>\<open>lagnaRashi\<close> of
  GenerateSouthChart: zero when there is no ascendant, then the default 1.
\<close>

definition lagnaRashiNum :: "env \<Rightarrow> ChartInput \<Rightarrow> int" where
  "lagnaRashiNum env input =
     (let n = (case Lagna input of Some l \<Rightarrow> RashiToNumber env (Rashi l) | None \<Rightarrow> 0)
      in if n = 0 then 1 else n)"

text \<open>
  The label of a planet at the moment it is classified: the display name, then
  \<^verbatim>\<open>"R"\<close> when retrograde, then \<^verbatim>\<open>"C"\<close> when combust.
\<close>

definition planetLabel :: "env \<Rightarrow> string \<Rightarrow> Planet \<Rightarrow> string" where
  "planetLabel env planetName planet =
     (let abbrev = GetPlanetDisplayName env planetName (Some planet);
          abbrev = (if IsRetrograde planet then abbrev @ ''R'' else abbrev);
          abbrev = (if IsCombust planet then abbrev @ ''C'' else abbrev)
      in abbrev)"

text \<open>
  The loop \<^verbatim>\<open>for planetName, planet := range input.Planets\<close>, which the three places
  that collect occupants share word for word. Go enumerates a map in an order of its own
  choosing, which may change from one loop to the next: the enumeration a loop gets is
  the argument \<open>entries\<close>. The loop reads \<^verbatim>\<open>planet.Rashi\<close> first, so a nil
  pointer stored in the map panics. The state is the pair of the groups
  \<^verbatim>\<open>regularPlanets\<close> and \<^verbatim>\<open>specialLagnas\<close>.
\<close>

fun collectPlanets ::
  "env \<Rightarrow> ChartInput \<Rightarrow> int \<Rightarrow> (string \<times> Planet option) list
     \<Rightarrow> string list \<times> string list \<Rightarrow> panic + (string list \<times> string list)" where
  "collectPlanets env input rashiNum [] groups = Inr groups"
| "collectPlanets env input rashiNum ((planetName, None) # rest) groups =
     Inl NilPointerDereference"
| "collectPlanets env input rashiNum ((planetName, Some planet) # rest)
       (regularPlanets, specialLagnas) =
     (let planetRashiNum = RashiToNumber env (Rashi planet)
      in if planetRashiNum > 0 \<and> planetRashiNum = rashiNum
         then let abbrev = planetLabel env planetName planet
              in if IsSpecialLagnaAbbrev env abbrev input
                 then collectPlanets env input rashiNum rest
                        (regularPlanets, specialLagnas @ [abbrev])
                 else collectPlanets env input rashiNum rest
                        (regularPlanets @ [abbrev], specialLagnas)
         else collectPlanets env input rashiNum rest (regularPlanets, specialLagnas))"

text \<open>
  An enumeration of a Go map: every key once, with its value.
\<close>

definition enumerates :: "('k \<rightharpoonup> 'v) \<Rightarrow> ('k \<times> 'v) list \<Rightarrow> bool" where
  "enumerates m entries \<longleftrightarrow> distinct (map fst entries) \<and> map_of entries = m"

text \<open>
  The groups of a North position (the ascendant first, guarded by
  \<^verbatim>\<open>input.Lagna != nil && rashiNum == lagnaRashiNum\<close>) and of a South house (guarded by
  \<^verbatim>\<open>input.Lagna != nil && lagnaRashi > 0 && rashiNum == lagnaRashi\<close>).
\<close>

definition northOccupants ::
  "env \<Rightarrow> ChartInput \<Rightarrow> int \<Rightarrow> (string \<times> Planet option) list \<Rightarrow> int
     \<Rightarrow> panic + (string list \<times> string list)" where
  "northOccupants env input lagnaRashi entries rashiNum =
     collectPlanets env input rashiNum entries
       (if Lagna input \<noteq> None \<and> rashiNum = lagnaRashi
        then [GetPlanetDisplayName env ''lagna'' (Lagna input)] else [], [])"

definition southOccupants ::
  "env \<Rightarrow> ChartInput \<Rightarrow> int \<Rightarrow> (string \<times> Planet option) list \<Rightarrow> int
     \<Rightarrow> panic + (string list \<times> string list)" where
  "southOccupants env input lagnaRashi entries rashiNum =
     collectPlanets env input rashiNum entries
       (if Lagna input \<noteq> None \<and> lagnaRashi > 0 \<and> rashiNum = lagnaRashi
        then [GetPlanetDisplayName env ''lagna'' (Lagna input)] else [], [])"

section \<open>Placement of the labels\<close>

text \<open>
  The two drawing loops that follow every collection. \<open>step\<close> is the vertical step
  (20 in the North chart, 25 in the South chart); \<^verbatim>\<open>float64(i*step)\<close> is exact.
\<close>

definition drawRegular :: "real \<Rightarrow> real \<Rightarrow> nat \<Rightarrow> string list \<Rightarrow> cmd list" where
  "drawRegular leftX planetY step regularPlanets =
     concat (map (\<lambda>(i, planetAbbrev).
         [if Contains planetAbbrev ''Asc'' then SetRGB 1.0 0.6 0.2 else SetRGB 0 0 0,
          DrawStringAnchored planetAbbrev leftX (planetY + real (i * step)) 1.0 0.5])
       (enumerate 0 regularPlanets))"

definition drawSpecial :: "real \<Rightarrow> real \<Rightarrow> nat \<Rightarrow> nat \<Rightarrow> string list \<Rightarrow> cmd list" where
  "drawSpecial rightX planetY step maxItems specialLagnas =
     concat (map (\<lambda>i.
         if i < length specialLagnas
         then [SetRGB 1.0 0.85 0.0,
               DrawStringAnchored (specialLagnas ! i) rightX (planetY + real (i * step)) 0.0 0.5]
         else [])
       [0..<maxItems])"

definition drawLabels ::
  "real \<Rightarrow> real \<Rightarrow> real \<Rightarrow> nat \<Rightarrow> string list \<Rightarrow> string list \<Rightarrow> cmd list" where
  "drawLabels leftX rightX planetY step regularPlanets specialLagnas =
     drawRegular leftX planetY step regularPlanets
     @ (let maxItems = (if length specialLagnas > length regularPlanets
                        then length specialLagnas else length regularPlanets)
        in drawSpecial rightX planetY step maxItems specialLagnas)
     @ [SetRGB 0 0 0]"

section \<open>Sign arithmetic of the North chart (north\_chart.go)\<close>

text \<open>
  Go's \<^verbatim>\<open>int\<close> is modelled by \<^typ>\<open>int\<close>: the values stay below 24, far from the
  64-bit range. Go's \<^verbatim>\<open>%\<close> truncates towards zero, which is \<open>smod\<close>.

  The closure \<^verbatim>\<open>getRashiForPosition\<close>, with the captured variable
  \<^verbatim>\<open>lagnaRashiNum\<close> as its first argument.
\<close>

definition getRashiForPosition :: "int \<Rightarrow> int \<Rightarrow> int" where
  "getRashiForPosition lagnaRashi position =
     (if position = 1 then lagnaRashi
      else let offset = position - 1;
               rashiNum = (lagnaRashi + offset) smod 12
           in if rashiNum = 0 then 12 else rashiNum)"

text \<open>
  The sign number that the first loop over \<^verbatim>\<open>rashiPositions\<close> prints for the table
  entry with index \<open>i\<close> (position \<open>i + 2\<close>).
\<close>

definition numberLoopRashi :: "int \<Rightarrow> nat \<Rightarrow> int" where
  "numberLoopRashi lagnaRashi i =
     (let offset = int i + 1;
          rashiNum = (lagnaRashi + offset) smod 12
      in if rashiNum = 0 then 12 else rashiNum)"

section \<open>Sequencing\<close>

text \<open>
  The statements of a chart generator run one after the other on the same context; a
  panic in one of them ends the call.
\<close>

fun inSequence :: "(panic + cmd list) list \<Rightarrow> panic + cmd list" where
  "inSequence [] = Inr []"
| "inSequence (step # steps) =
     (case step of
        Inl p \<Rightarrow> Inl p
      | Inr cmds \<Rightarrow> (case inSequence steps of Inl p \<Rightarrow> Inl p | Inr later \<Rightarrow> Inr (cmds @ later)))"

section \<open>GenerateNorthChart (north\_chart.go)\<close>

datatype RashiPosition =
  RashiPosition (pos_x: real) (pos_y: real) (pos_angle: real) (pos_planetX: real) (pos_planetY: real)

definition rashiPositions :: "RashiPosition list" where
  "rashiPositions =
     [RashiPosition 220.0 160.0 (-5.0) 180.0 70.0,
      RashiPosition 70.0 300.0 (-1.0) 60.0 150.0,
      RashiPosition 220.0 500.0 (-1.0) 200.0 310.0,
      RashiPosition 70.0 670.0 (-1.0) 60.0 500.0,
      RashiPosition 130.0 720.0 (-1.0) 180.0 640.0,
      RashiPosition 400.0 680.0 (-1.0) 380.0 480.0,
      RashiPosition 650.0 725.0 (-1.0) 540.0 660.0,
      RashiPosition 730.0 660.0 (-1.0) 690.0 500.0,
      RashiPosition 580.0 500.0 (-1.0) 550.0 330.0,
      RashiPosition 720.0 300.0 (-1.0) 700.0 130.0,
      RashiPosition 580.0 160.0 (-1.0) 520.0 70.0]"

text \<open>Steps 1 to 5: the background, the two rotated squares and the two splitting lines.\<close>

definition northFrame :: "cmd list" where
  "northFrame =
     (let chartSize = 800 - 2 * 40;
          centerX = 800 / 2;
          centerY = 800 / 2;
          innerSquareSize = chartSize * 0.4 * 1.5 * 1.15 * 1.05 * 0.98;
          innerHalfSize = innerSquareSize / 2;
          innerCornerDistance = innerHalfSize * sqrt 2;
          outerHalfSize = innerCornerDistance;
          extendDistance = outerHalfSize * sqrt 2
      in [SetRGB 1 1 1, Clear,
          SetRGB 0 0 0, SetLineWidth 3,
          Push, Translate centerX centerY, Rotate (90 * pi / 180),
          DrawRectangle (- outerHalfSize) (- outerHalfSize) (outerHalfSize * 2) (outerHalfSize * 2),
          Stroke, Pop,
          SetLineWidth 2,
          Push, Translate centerX centerY, Rotate (- 45 * pi / 180),
          DrawRectangle (- innerHalfSize) (- innerHalfSize) innerSquareSize innerSquareSize,
          Stroke,
          DrawLine (- extendDistance) 0 extendDistance 0, Stroke,
          DrawLine 0 (- extendDistance) 0 extendDistance, Stroke,
          Pop])"

text \<open>Step 5a: the sign number of the ascendant at (400, 300).\<close>

definition northLagnaNumber :: "int \<Rightarrow> cmd list" where
  "northLagnaNumber lagnaRashi =
     [SetRGB 0 0 0, LoadMatangiRegular 20,
      Push, Translate 400.0 300.0, Rotate (5 * pi / 180),
      DrawStringAnchored (Sprintf_d lagnaRashi) 0 0 0.5 0.5, Pop]"

text \<open>The first loop over \<^verbatim>\<open>rashiPositions\<close>: the sign numbers of positions 2 to 12.\<close>

definition northNumbers :: "int \<Rightarrow> cmd list" where
  "northNumbers lagnaRashi =
     [SetRGB 0 0 0, LoadMatangiRegular 20]
     @ concat (map (\<lambda>(i, pos).
         [Push, Translate (pos_x pos) (pos_y pos), Rotate (pos_angle pos * pi / 180),
          DrawStringAnchored (Sprintf_d (numberLoopRashi lagnaRashi i)) 0 0 0.5 0.5, Pop])
       (enumerate 0 rashiPositions))"

text \<open>The labels of position 1, drawn only when one of the groups is not empty.\<close>

definition northDraw1 :: "string list \<Rightarrow> string list \<Rightarrow> cmd list" where
  "northDraw1 regularPlanets1 specialLagnas1 =
     (if length regularPlanets1 > 0 \<or> length specialLagnas1 > 0
      then let leftX = 360.0; rightX = 400.0; planetY = 140.0
           in drawLabels leftX rightX planetY 20 regularPlanets1 specialLagnas1
      else [])"

definition northPosition1 ::
  "env \<Rightarrow> ChartInput \<Rightarrow> int \<Rightarrow> (string \<times> Planet option) list \<Rightarrow> panic + cmd list" where
  "northPosition1 env input lagnaRashi entries =
     (let position1Rashi = getRashiForPosition lagnaRashi 1
      in case northOccupants env input lagnaRashi entries position1Rashi of
           Inl p \<Rightarrow> Inl p
         | Inr (regularPlanets1, specialLagnas1) \<Rightarrow>
             Inr (northDraw1 regularPlanets1 specialLagnas1))"

text \<open>The labels of the position of a table entry (positions 2 to 12).\<close>

definition northDraw :: "RashiPosition \<Rightarrow> string list \<Rightarrow> string list \<Rightarrow> cmd list" where
  "northDraw pos regularPlanets specialLagnas =
     (if length regularPlanets > 0 \<or> length specialLagnas > 0
      then let (baseX, baseY) =
                 (if pos_planetX pos \<noteq> 0.0 \<or> pos_planetY pos \<noteq> 0.0
                  then (pos_planetX pos, pos_planetY pos)
                  else let angleRad = pos_angle pos * pi / 180;
                           offsetX = 30.0 * cos angleRad;
                           offsetY = 30.0 * sin angleRad
                       in (pos_x pos + offsetX, pos_y pos + offsetY));
               leftX = baseX - 20;
               rightX = baseX + 20
           in drawLabels leftX rightX baseY 20 regularPlanets specialLagnas
      else [])"

definition northPosition ::
  "env \<Rightarrow> ChartInput \<Rightarrow> int \<Rightarrow> (int \<Rightarrow> (string \<times> Planet option) list)
     \<Rightarrow> nat \<times> RashiPosition \<Rightarrow> panic + cmd list" where
  "northPosition env input lagnaRashi order ipos =
     (case ipos of (i, pos) \<Rightarrow>
        let positionNum = int i + 2;
            rashiNum = getRashiForPosition lagnaRashi positionNum
        in case northOccupants env input lagnaRashi (order positionNum) rashiNum of
             Inl p \<Rightarrow> Inl p
           | Inr (regularPlanets, specialLagnas) \<Rightarrow>
               Inr (northDraw pos regularPlanets specialLagnas))"

text \<open>
  The calls GenerateNorthChart makes on its context. \<open>order p\<close> is the enumeration of
  \<^verbatim>\<open>input.Planets\<close> that the loop of position \<open>p\<close> gets.
\<close>

definition northCanvas ::
  "env \<Rightarrow> (int \<Rightarrow> (string \<times> Planet option) list) \<Rightarrow> ChartInput \<Rightarrow> panic + cmd list" where
  "northCanvas env order input =
     (let lagnaRashi = lagnaRashiNum env input
      in inSequence
           ([Inr northFrame,
             Inr (northLagnaNumber lagnaRashi),
             Inr (northNumbers lagnaRashi),
             Inr [LoadMatangiBold 18],
             northPosition1 env input lagnaRashi (order 1)]
            @ map (northPosition env input lagnaRashi order) (enumerate 0 rashiPositions)))"

section \<open>GenerateSouthChart (south\_chart.go)\<close>

record Rectangle =
  MinX :: int
  MinY :: int
  MaxX :: int
  MaxY :: int

text \<open>
  \<^verbatim>\<open>cellSize\<close> is \<^verbatim>\<open>float64(gridSize) / 4\<close>, the whole number 180, so that every
  conversion between \<^verbatim>\<open>int\<close> and \<^verbatim>\<open>float64\<close> in the grid is exact.
\<close>

definition padding :: int where "padding = 40"
definition gridSize :: int where "gridSize = 800 - 2 * padding"
definition cellSize :: int where "cellSize = gridSize div 4"

definition Rect :: "int \<Rightarrow> int \<Rightarrow> int \<Rightarrow> int \<Rightarrow> Rectangle" where
  "Rect x0 y0 x1 y1 =
     \<lparr>MinX = min x0 x1, MinY = min y0 y1, MaxX = max x0 x1, MaxY = max y0 y1\<rparr>"

definition houseRects :: "(int \<times> Rectangle) list" where
  "houseRects =
     [(12, Rect padding padding (padding + cellSize) (padding + cellSize)),
      (1, Rect (padding + cellSize) padding (padding + 2 * cellSize) (padding + cellSize)),
      (2, Rect (padding + 2 * cellSize) padding (padding + 3 * cellSize) (padding + cellSize)),
      (3, Rect (padding + 3 * cellSize) padding (padding + 4 * cellSize) (padding + cellSize)),
      (4, Rect (padding + 3 * cellSize) (padding + cellSize)
            (padding + 4 * cellSize) (padding + 2 * cellSize)),
      (5, Rect (padding + 3 * cellSize) (padding + 2 * cellSize)
            (padding + 4 * cellSize) (padding + 3 * cellSize)),
      (6, Rect (padding + 3 * cellSize) (padding + 3 * cellSize)
            (padding + 4 * cellSize) (padding + 4 * cellSize)),
      (7, Rect (padding + 2 * cellSize) (padding + 3 * cellSize)
            (padding + 3 * cellSize) (padding + 4 * cellSize)),
      (8, Rect (padding + cellSize) (padding + 3 * cellSize)
            (padding + 2 * cellSize) (padding + 4 * cellSize)),
      (9, Rect padding (padding + 3 * cellSize) (padding + cellSize) (padding + 4 * cellSize)),
      (10, Rect padding (padding + 2 * cellSize) (padding + cellSize) (padding + 3 * cellSize)),
      (11, Rect padding (padding + cellSize) (padding + cellSize) (padding + 2 * cellSize))]"

definition houseRect :: "int \<Rightarrow> Rectangle" where
  "houseRect houseNum =
     (case map_of houseRects houseNum of
        Some rect \<Rightarrow> rect
      | None \<Rightarrow> \<lparr>MinX = 0, MinY = 0, MaxX = 0, MaxY = 0\<rparr>)"

text \<open>The outer square and the lines of the grid.\<close>

definition southFrame :: "cmd list" where
  "southFrame =
     (let pad = real_of_int padding;
          cell = real_of_int cellSize;
          x1 = pad + cell; x2 = pad + 2 * cell; x3 = pad + 3 * cell; x4 = pad + 4 * cell;
          x2Bottom = pad + 2 * cell; x1Bottom = pad + cell; x0Bottom = pad;
          y1 = pad + cell; y2 = pad + 2 * cell; y3 = pad + 3 * cell; y4 = pad + 4 * cell
      in [SetRGB 1 1 1, Clear,
          SetRGB 0 0 0, SetLineWidth 2,
          DrawRectangle pad pad (real_of_int gridSize) (real_of_int gridSize), Stroke,
          SetLineWidth 1,
          DrawLine x1 pad x1 (pad + cell), Stroke,
          DrawLine x2 pad x2 (pad + cell), Stroke,
          DrawLine x3 pad x3 (pad + cell), Stroke,
          DrawLine x3 (pad + cell) x3 (pad + 2 * cell), Stroke,
          DrawLine x4 pad x4 (pad + cell), Stroke,
          DrawLine x4 (pad + cell) x4 (pad + 4 * cell), Stroke,
          DrawLine x3 (pad + 2 * cell) x3 (pad + 3 * cell), Stroke,
          DrawLine x3 (pad + 3 * cell) x3 (pad + 4 * cell), Stroke,
          DrawLine x2Bottom (pad + 3 * cell) x2Bottom (pad + 4 * cell), Stroke,
          DrawLine x1Bottom (pad + 3 * cell) x1Bottom (pad + 4 * cell), Stroke,
          DrawLine x0Bottom (pad + 3 * cell) x0Bottom (pad + 4 * cell), Stroke,
          DrawLine x0Bottom (pad + 2 * cell) x0Bottom (pad + 3 * cell), Stroke,
          DrawLine x0Bottom (pad + cell) x0Bottom (pad + 2 * cell), Stroke,
          DrawLine x0Bottom pad x0Bottom (pad + cell), Stroke,
          DrawLine x1Bottom (pad + cell) x1Bottom (pad + 3 * cell), Stroke,
          DrawLine x1Bottom pad x1Bottom (pad + cell), Stroke,
          DrawLine x1 y1 x4 y1, Stroke,
          DrawLine x0Bottom y1 x1Bottom y1, Stroke,
          DrawLine x3 y2 x4 y2, Stroke,
          DrawLine x0Bottom y2 x1Bottom y2, Stroke,
          DrawLine x0Bottom y3 x1Bottom y3, Stroke,
          DrawLine x1Bottom y3 x2Bottom y3, Stroke,
          DrawLine x2Bottom y3 x3 y3, Stroke,
          DrawLine x3 y3 x4 y3, Stroke,
          DrawLine x0Bottom y4 x4 y4, Stroke])"

text \<open>The two parallel diagonal lines that mark the house of the ascendant.\<close>

definition lagnaMarker :: "Rectangle \<Rightarrow> cmd list" where
  "lagnaMarker rect =
     (let cornerX = real_of_int (MinX rect) + 15;
          cornerY = real_of_int (MaxY rect);
          lineLength = 15.0;
          offset = 3.0;
          cos90 = 0.0;
          sin90 = 1.0;
          dx1 = lineLength * cos90 - (- lineLength) * sin90;
          dy1 = lineLength * sin90 + (- lineLength) * cos90;
          dx2 = dx1 * cos90 - dy1 * sin90;
          dy2 = dx1 * sin90 + dy1 * cos90;
          dx = dx2 * cos90 - dy2 * sin90;
          dy = dx2 * sin90 + dy2 * cos90
      in [SetLineWidth 2,
          DrawLine cornerX cornerY (cornerX + dx) (cornerY + dy), Stroke,
          DrawLine (cornerX + offset) (cornerY - offset)
                   (cornerX + dx + offset) (cornerY + dy - offset), Stroke,
          SetLineWidth 1])"

text \<open>The labels of a house: always drawn, inside the rectangle of the house.\<close>

definition southDraw :: "Rectangle \<Rightarrow> string list \<Rightarrow> string list \<Rightarrow> cmd list" where
  "southDraw rect regularPlanets specialLagnas =
     (let centerX = real_of_int (MinX rect + MaxX rect) / 2;
          planetY = real_of_int (MinY rect) + 25;
          leftX = centerX - 25;
          rightX = centerX + 25
      in [LoadMatangiBold 22]
         @ drawLabels leftX rightX planetY 25 regularPlanets specialLagnas
         @ [LoadMatangiRegular 16])"

text \<open>One turn of the loop \<^verbatim>\<open>for houseNum := 1; houseNum <= 12; houseNum++\<close>.\<close>

definition southHouse ::
  "env \<Rightarrow> ChartInput \<Rightarrow> int \<Rightarrow> (int \<Rightarrow> (string \<times> Planet option) list) \<Rightarrow> int
     \<Rightarrow> panic + cmd list" where
  "southHouse env input lagnaRashi order houseNum =
     (let rect = houseRect houseNum;
          rashiNum = houseNum;
          rashiStr = Sprintf_d rashiNum;
          textX = real_of_int (MaxX rect) - 10;
          textY = real_of_int (MaxY rect) - 29;
          number = [SetRGB 0 0 0, DrawStringAnchored rashiStr textX textY 1.0 1.0];
          marker = (if Lagna input \<noteq> None \<and> lagnaRashi > 0 \<and> rashiNum = lagnaRashi
                    then lagnaMarker rect else [])
      in case southOccupants env input lagnaRashi (order houseNum) rashiNum of
           Inl p \<Rightarrow> Inl p
         | Inr (regularPlanets, specialLagnas) \<Rightarrow>
             Inr (number @ marker @ southDraw rect regularPlanets specialLagnas))"

text \<open>The text in the four middle cells.\<close>

definition southCenterText :: "string \<Rightarrow> cmd list" where
  "southCenterText centerText =
     (if centerText \<noteq> []
      then let centerX = real_of_int padding + 2 * real_of_int cellSize;
               centerY = real_of_int padding + 2 * real_of_int cellSize;
               lines = SplitLines centerText;
               lineHeight = 25.0;
               startY = centerY - (real (length lines) - 1) * lineHeight / 2
           in [LoadMatangiRegular 18, SetRGB 0 0 0]
              @ concat (map (\<lambda>(i, line).
                  if line \<noteq> []
                  then [DrawStringAnchored line centerX (startY + real i * lineHeight) 0.5 0.5]
                  else [])
                (enumerate 0 lines))
      else [])"

text \<open>
  The calls GenerateSouthChart makes on its context. \<open>order h\<close> is the enumeration of
  \<^verbatim>\<open>input.Planets\<close> that the loop of house \<open>h\<close> gets.
\<close>

definition southCanvas ::
  "env \<Rightarrow> (int \<Rightarrow> (string \<times> Planet option) list) \<Rightarrow> ChartInput \<Rightarrow> panic + cmd list" where
  "southCanvas env order input =
     (let lagnaRashi = lagnaRashiNum env input
      in inSequence
           ([Inr southFrame, Inr [SetRGB 0 0 0, LoadMatangiRegular 16]]
            @ map (southHouse env input lagnaRashi order) [1..12]
            @ [Inr (southCenterText (CenterText input))]))"

section \<open>Encoding and the entry point (chart.go)\<close>

text \<open>
  A Go result \<^verbatim>\<open>(value, error)\<close> is a pair whose second component is \<open>None\<close> for the
  nil error. A nil byte slice is the empty string.
\<close>

definition encodePNG :: "env \<Rightarrow> cmd list \<Rightarrow> string \<times> error option" where
  "encodePNG env img =
     (case png_Encode env img of
        Inl err \<Rightarrow> ([], Some err)
      | Inr bytes \<Rightarrow> (bytes, None))"

definition GenerateNorthChart ::
  "env \<Rightarrow> (int \<Rightarrow> (string \<times> Planet option) list) \<Rightarrow> ChartInput
     \<Rightarrow> panic + (string \<times> error option)" where
  "GenerateNorthChart env order input =
     (case northCanvas env order input of
        Inl p \<Rightarrow> Inl p
      | Inr dc \<Rightarrow> Inr (encodePNG env dc))"

definition GenerateSouthChart ::
  "env \<Rightarrow> (int \<Rightarrow> (string \<times> Planet option) list) \<Rightarrow> ChartInput
     \<Rightarrow> panic + (string \<times> error option)" where
  "GenerateSouthChart env order input =
     (case southCanvas env order input of
        Inl p \<Rightarrow> Inl p
      | Inr dc \<Rightarrow> Inr (encodePNG env dc))"

text \<open>
  The end of GenerateChart, after the \<^verbatim>\<open>switch\<close>: the error of the generator is wrapped,
  otherwise the image is encoded to base64.
\<close>

definition finishChart ::
  "env \<Rightarrow> panic + (string \<times> error option) \<Rightarrow> panic + (string \<times> error option)" where
  "finishChart env generated =
     (case generated of
        Inl p \<Rightarrow> Inl p
      | Inr (img, err) \<Rightarrow>
          (case err of
             Some (Error msg) \<Rightarrow> Inr ([], Some (Error (''failed to generate chart: '' @ msg)))
           | None \<Rightarrow> Inr (EncodeToString env img, None)))"

definition GenerateChart ::
  "env \<Rightarrow> (int \<Rightarrow> (string \<times> Planet option) list) \<Rightarrow> ChartInput
     \<Rightarrow> panic + (string \<times> error option)" where
  "GenerateChart env order input =
     (if ChartType input = []
      then Inr ([], Some (Error ''chart_type is required''))
      else if ChartType input = ChartTypeSouth
           then finishChart env (GenerateSouthChart env order input)
      else if ChartType input = ChartTypeNorth
           then finishChart env (GenerateNorthChart env order input)
      else Inr ([], Some (Error (''unsupported chart type: '' @ ChartType input))))"

text \<open>
  A run is well-formed when every loop gets an enumeration of the map of the request.
\<close>

definition validOrder :: "ChartInput \<Rightarrow> (int \<Rightarrow> (string \<times> Planet option) list) \<Rightarrow> bool" where
  "validOrder input order \<longleftrightarrow> (\<forall>p. enumerates (Planets input) (order p))"

section \<open>Notions used to state the properties\<close>

text \<open>
  The labels that the planets of an enumeration contribute to the slot of sign
  \<open>rashiNum\<close>, in the order of the enumeration, before they are split into groups.
\<close>

definition slotLabels :: "env \<Rightarrow> int \<Rightarrow> (string \<times> Planet option) list \<Rightarrow> string list" where
  "slotLabels env rashiNum entries =
     concat (map (\<lambda>(planetName, planet).
        case planet of
          None \<Rightarrow> []
        | Some pl \<Rightarrow>
            if 0 < RashiToNumber env (Rashi pl) \<and> RashiToNumber env (Rashi pl) = rashiNum
            then [planetLabel env planetName pl] else [])
       entries)"

text \<open>The calls that draw text, and the texts they draw.\<close>

fun isText :: "cmd \<Rightarrow> bool" where
  "isText (DrawStringAnchored s x y ax ay) = True"
| "isText c = False"

definition textCalls :: "cmd list \<Rightarrow> cmd list" where
  "textCalls cmds = filter isText cmds"

fun textOf :: "cmd \<Rightarrow> string" where
  "textOf (DrawStringAnchored s x y ax ay) = s"
| "textOf c = []"

definition drawnStrings :: "cmd list \<Rightarrow> string list" where
  "drawnStrings cmds = map textOf (textCalls cmds)"

text \<open>
  \<^verbatim>\<open>DrawStringAnchored(s, x, y, ax, ay)\<close> shifts the text left by \<open>ax\<close> times its
  width: with \<open>ax = 0\<close> the text starts at \<open>x\<close> (left-aligned), with \<open>ax = 1\<close> it
  ends at \<open>x\<close> (right-aligned), with \<open>ax = 0.5\<close> it is centred, as the comments of
  the source say (\<^verbatim>\<open>anchored to bottom-right\<close> for 1.0, 1.0 and
  \<^verbatim>\<open>Center-aligned\<close> for 0.5, 0.5).

  The layout that the drawing loops produce: entry \<open>i\<close> of either group at the vertical
  coordinate \<open>anchorY + i * step\<close>, the regular group right-aligned at \<open>leftX\<close>
  (horizontal anchor 1), the special group left-aligned at \<open>rightX\<close> (horizontal
  anchor 0).
\<close>

definition pairedLayout ::
  "real \<Rightarrow> real \<Rightarrow> real \<Rightarrow> nat \<Rightarrow> string list \<Rightarrow> string list \<Rightarrow> cmd list" where
  "pairedLayout leftX rightX anchorY step regular special =
     map (\<lambda>i. DrawStringAnchored (regular ! i) leftX (anchorY + real (i * step)) 1.0 0.5)
       [0..<length regular]
     @ map (\<lambda>i. DrawStringAnchored (special ! i) rightX (anchorY + real (i * step)) 0.0 0.5)
       [0..<length special]"

text \<open>
  The layout in the words of the specification: the same points, with the regular group
  left-aligned at \<open>leftX\<close> (horizontal anchor 0) and the special group right-aligned at
  \<open>rightX\<close> (horizontal anchor 1). Mirroring the horizontal anchor of a text call turns
  the one alignment into the other.
\<close>

definition specPairedLayout ::
  "real \<Rightarrow> real \<Rightarrow> real \<Rightarrow> nat \<Rightarrow> string list \<Rightarrow> string list \<Rightarrow> cmd list" where
  "specPairedLayout leftX rightX anchorY step regular special =
     map (\<lambda>i. DrawStringAnchored (regular ! i) leftX (anchorY + real (i * step)) 0.0 0.5)
       [0..<length regular]
     @ map (\<lambda>i. DrawStringAnchored (special ! i) rightX (anchorY + real (i * step)) 1.0 0.5)
       [0..<length special]"

fun mirrorAnchor :: "cmd \<Rightarrow> cmd" where
  "mirrorAnchor (DrawStringAnchored s x y ax ay) = DrawStringAnchored s x y (1 - ax) ay"
| "mirrorAnchor c = c"

text \<open>
  Two results of a collection hold the same labels when both panic, or both return and
  each group has the same labels with the same multiplicities. No two planets share a
  sign when two keys of the map whose planets resolve to the same sign are the same key.
  An entry is in a sign when its planet resolves to that sign.
\<close>

definition sameLabels ::
  "panic + (string list \<times> string list) \<Rightarrow> panic + (string list \<times> string list) \<Rightarrow> bool" where
  "sameLabels a b =
     (case (a, b) of
        (Inr (r1, s1), Inr (r2, s2)) \<Rightarrow> mset r1 = mset r2 \<and> mset s1 = mset s2
      | (Inl p1, Inl p2) \<Rightarrow> p1 = p2
      | _ \<Rightarrow> False)"

definition onePlanetPerSign :: "env \<Rightarrow> ChartInput \<Rightarrow> bool" where
  "onePlanetPerSign env input \<longleftrightarrow>
     (\<forall>k1 k2 p1 p2.
        Planets input k1 = Some (Some p1) \<and> Planets input k2 = Some (Some p2)
        \<and> 0 < RashiToNumber env (Rashi p1)
        \<and> RashiToNumber env (Rashi p1) = RashiToNumber env (Rashi p2)
        \<longrightarrow> k1 = k2)"

definition inSign :: "env \<Rightarrow> int \<Rightarrow> string \<times> Planet option \<Rightarrow> bool" where
  "inSign env rashiNum entry =
     (case snd entry of
        None \<Rightarrow> False
      | Some pl \<Rightarrow> 0 < RashiToNumber env (Rashi pl) \<and> RashiToNumber env (Rashi pl) = rashiNum)"

text \<open>
  Concrete runs: ASCII lower-casing, a predicate that calls no label special, an encoder
  that always succeeds; planets without a custom display name; requests given by the
  entries of their map.
\<close>

definition env0 :: env where
  "env0 = \<lparr>ToLower = asciiToLower, IsSpecialLagnaAbbrev = (\<lambda>abbrev input. False),
           png_Encode = (\<lambda>img. Inr []), EncodeToString = (\<lambda>bytes. bytes)\<rparr>"

definition mkPlanet :: "string \<Rightarrow> bool \<Rightarrow> bool \<Rightarrow> Planet" where
  "mkPlanet rashi retrograde combust =
     \<lparr>Rashi = rashi, IsRetrograde = retrograde, IsCombust = combust, IsUpagraha = False,
      Display = []\<rparr>"

definition mkInput ::
  "string \<Rightarrow> (string \<times> Planet option) list \<Rightarrow> Planet option \<Rightarrow> ChartInput" where
  "mkInput chartType planets lagna =
     \<lparr>ChartType = chartType, Planets = map_of planets, Lagna = lagna, CenterText = []\<rparr>"

section \<open>Rotation of the signs\<close>

lemma sign_cases: "1 \<le> A \<Longrightarrow> A \<le> 12 \<Longrightarrow> A \<in> set [1,2,3,4,5,6,7,8,9,10,11,(12::int)]"
  by (simp, arith)

lemma positions_upto: "[1..12] = [1,2,3,4,5,6,7,8,9,10,11,(12::int)]"
  by (simp add: upto.simps)

lemma signs_set: "{1..12} = set [1,2,3,4,5,6,7,8,9,10,11,(12::int)]"
  using positions_upto by (metis set_upto)

lemma rotation_formula_ground:
  "\<forall>A\<in>set [1,2,3,4,5,6,7,8,9,10,11,(12::int)]. \<forall>N\<in>set [1,2,3,4,5,6,7,8,9,10,11,(12::int)].
     getRashiForPosition A N = (A - 1 + N - 1) mod 12 + 1"
  by (simp add: getRashiForPosition_def Let_def signed_modulo_int_def)

lemma rotation_values_ground:
  "\<forall>A\<in>set [1,2,3,4,5,6,7,8,9,10,11,(12::int)].
     map (getRashiForPosition A) [1,2,3,4,5,6,7,8,9,10,11,12]
       = map (\<lambda>N. if A + N - 1 \<le> 12 then A + N - 1 else A + N - 13)
           [1,2,3,4,5,6,7,8,9,10,11,12]"
  by (simp add: getRashiForPosition_def Let_def signed_modulo_int_def)

lemma rotation_perm_ground:
  "\<forall>A\<in>set [1,2,3,4,5,6,7,8,9,10,11,(12::int)].
     distinct (map (\<lambda>N. if A + N - 1 \<le> 12 then A + N - 1 else A + N - 13)
        [1,2,3,4,5,6,7,8,9,10,11,12])
   \<and> set (map (\<lambda>N. if A + N - 1 \<le> 12 then A + N - 1 else A + N - 13)
        [1,2,3,4,5,6,7,8,9,10,11,12])
       = set [1,2,3,4,5,6,7,8,9,10,11,(12::int)]"
  by (simp add: insert_commute)

lemma getRashiForPosition_formula:
  assumes "1 \<le> A" "A \<le> 12" "1 \<le> N" "N \<le> 12"
  shows "getRashiForPosition A N = (A - 1 + N - 1) mod 12 + 1"
  using rotation_formula_ground sign_cases [OF assms(1,2)] sign_cases [OF assms(3,4)]
  by blast

lemma rotation_distinct:
  assumes "1 \<le> A" "A \<le> 12"
  shows "distinct (map (getRashiForPosition A) [1..12])"
proof -
  note m = sign_cases [OF assms]
  note v = bspec [OF rotation_values_ground m]
  note p = bspec [OF rotation_perm_ground m]
  show ?thesis unfolding positions_upto v by (rule conjunct1 [OF p])
qed

lemma rotation_set:
  assumes "1 \<le> A" "A \<le> 12"
  shows "set (map (getRashiForPosition A) [1..12]) = {1..12}"
proof -
  note m = sign_cases [OF assms]
  note v = bspec [OF rotation_values_ground m]
  note p = bspec [OF rotation_perm_ground m]
  show ?thesis unfolding positions_upto signs_set v by (rule conjunct2 [OF p])
qed

lemma numberLoopRashi_eq:
  "numberLoopRashi A i = getRashiForPosition A (int i + 2)"
  by (simp add: numberLoopRashi_def getRashiForPosition_def Let_def add.commute)

text \<open>
  C5. In the North style, for an ascendant sign \<open>A\<close> in 1..12, the sign of every position
  \<open>N\<close> in 1..12 is \<open>((A - 1 + N - 1) mod 12) + 1\<close> (so position 1 has sign \<open>A\<close>), the
  number printed by the first loop for a position is that same sign, and the twelve signs
  are pairwise distinct and are exactly the signs 1..12.
\<close>

theorem north_rotation_cyclic:
  assumes "1 \<le> A" "A \<le> 12"
  shows "(\<forall>N\<in>{1..12}. getRashiForPosition A N = (A - 1 + N - 1) mod 12 + 1)
       \<and> getRashiForPosition A 1 = A
       \<and> (\<forall>i<11. numberLoopRashi A i = getRashiForPosition A (int i + 2))
       \<and> distinct (map (getRashiForPosition A) [1..12])
       \<and> set (map (getRashiForPosition A) [1..12]) = {1..12}"
proof -
  have a: "\<forall>N\<in>{1..12}. getRashiForPosition A N = (A - 1 + N - 1) mod 12 + 1"
    using assms by (simp add: getRashiForPosition_formula)
  have b: "getRashiForPosition A 1 = A"
    by (simp add: getRashiForPosition_def)
  have c: "\<forall>i<11. numberLoopRashi A i = getRashiForPosition A (int i + 2)"
    by (simp add: numberLoopRashi_eq)
  note d = rotation_distinct [OF assms]
  note e = rotation_set [OF assms]
  from a b c d e show ?thesis by blast
qed

text \<open>
  The scenario of the specification: with the ascendant in Leo (sign 5), position 2 has
  sign 6 and position 12 wraps around to sign 4.
\<close>

theorem north_rotation_cyclic_witness:
  "(1::int) \<le> 5 \<and> (5::int) \<le> 12
   \<and> getRashiForPosition 5 2 = 6 \<and> getRashiForPosition 5 12 = 4
   \<and> numberLoopRashi 5 10 = 4
   \<and> distinct (map (getRashiForPosition 5) [1..12])
   \<and> set (map (getRashiForPosition 5) [1..12]) = {1..12}"
proof -
  have h1: "(1::int) \<le> 5" and h2: "(5::int) \<le> 12" by simp_all
  note r = north_rotation_cyclic [OF h1 h2]
  have v: "getRashiForPosition 5 2 = 6" "getRashiForPosition 5 12 = 4" "numberLoopRashi 5 10 = 4"
    by (simp_all add: getRashiForPosition_def numberLoopRashi_def Let_def signed_modulo_int_def)
  from r v h1 h2 show ?thesis by blast
qed

section \<open>Registry and occupants\<close>

lemma RashiToNumber_range: "0 \<le> RashiToNumber env s \<and> RashiToNumber env s \<le> 12"
  by (simp add: RashiToNumber_def rashiMap_def Let_def)

lemma lagnaRashiNum_range: "1 \<le> lagnaRashiNum env input \<and> lagnaRashiNum env input \<le> 12"
proof (cases "Lagna input")
  case None
  then show ?thesis by (simp add: lagnaRashiNum_def)
next
  case (Some l)
  have "0 \<le> RashiToNumber env (Rashi l)" "RashiToNumber env (Rashi l) \<le> 12"
    using RashiToNumber_range [of env "Rashi l"] by simp_all
  with Some show ?thesis by (simp add: lagnaRashiNum_def Let_def)
qed

lemma slotLabels_Nil: "slotLabels env n [] = []"
  by (simp add: slotLabels_def)

lemma slotLabels_Cons_Some:
  "slotLabels env n ((k, Some pl) # es) =
     (if 0 < RashiToNumber env (Rashi pl) \<and> RashiToNumber env (Rashi pl) = n
      then [planetLabel env k pl] else []) @ slotLabels env n es"
  by (simp add: slotLabels_def)

lemma slotLabels_append:
  "slotLabels env n (es @ fs) = slotLabels env n es @ slotLabels env n fs"
  by (simp add: slotLabels_def)

lemma collectPlanets_panics:
  "(k, None) \<in> set es \<Longrightarrow> collectPlanets env input n es g = Inl NilPointerDereference"
proof (induction es arbitrary: g)
  case Nil
  then show ?case by simp
next
  case (Cons e es)
  obtain k' v where e: "e = (k', v)" by (cases e)
  obtain r s where g: "g = (r, s)" by (cases g)
  show ?case
  proof (cases v)
    case None
    with e show ?thesis by simp
  next
    case (Some pl)
    with Cons.prems e have "(k, None) \<in> set es" by auto
    then have "\<And>g'. collectPlanets env input n es g' = Inl NilPointerDereference"
      by (rule Cons.IH)
    with e g Some show ?thesis by (simp add: Let_def)
  qed
qed

lemma collectPlanets_eq:
  "None \<notin> snd ` set es \<Longrightarrow>
   collectPlanets env input n es (r, s) =
     Inr (r @ filter (\<lambda>a. \<not> IsSpecialLagnaAbbrev env a input) (slotLabels env n es),
          s @ filter (\<lambda>a. IsSpecialLagnaAbbrev env a input) (slotLabels env n es))"
proof (induction es arbitrary: r s)
  case Nil
  then show ?case by (simp add: slotLabels_Nil)
next
  case (Cons e es)
  obtain k v where e: "e = (k, v)" by (cases e)
  from Cons.prems e obtain pl where v: "v = Some pl" by (cases v) auto
  from Cons.prems have nn: "None \<notin> snd ` set es" by auto
  note IH = Cons.IH [OF nn]
  show ?case
    unfolding e v by (simp add: Let_def IH slotLabels_Cons_Some)
qed

section \<open>Placement of the labels: the pairing law\<close>

lemma textCalls_append: "textCalls (a @ b) = textCalls a @ textCalls b"
  by (simp add: textCalls_def)

lemma textCalls_Nil: "textCalls [] = []"
  by (simp add: textCalls_def)

lemma textCalls_Cons:
  "textCalls (c # cs) = (if isText c then c # textCalls cs else textCalls cs)"
  by (simp add: textCalls_def)

lemma regular_loop:
  "textCalls (concat (map (\<lambda>(i, planetAbbrev).
         [if Contains planetAbbrev ''Asc'' then SetRGB 1.0 0.6 0.2 else SetRGB 0 0 0,
          DrawStringAnchored planetAbbrev leftX (planetY + real (i * step)) 1.0 0.5])
       (enumerate n regs)))
   = map (\<lambda>(i, planetAbbrev).
          DrawStringAnchored planetAbbrev leftX (planetY + real (i * step)) 1.0 0.5)
       (enumerate n regs)"
  by (induction regs arbitrary: n) (simp_all add: textCalls_Nil textCalls_Cons)

lemma textCalls_drawRegular:
  "textCalls (drawRegular leftX planetY step regs)
   = map (\<lambda>i. DrawStringAnchored (regs ! i) leftX (planetY + real (i * step)) 1.0 0.5)
       [0..<length regs]"
  unfolding drawRegular_def regular_loop
  by (rule nth_equalityI) (simp_all add: nth_enumerate_eq)

lemma special_loop_beyond:
  "textCalls (concat (map (\<lambda>i.
         if i < length specs
         then [SetRGB 1.0 0.85 0.0,
               DrawStringAnchored (specs ! i) rightX (planetY + real (i * step)) 0.0 0.5]
         else [])
       [length specs..<m])) = []"
  by (induction m) (auto simp: textCalls_def)

lemma special_loop_within:
  "k \<le> length specs \<Longrightarrow>
   textCalls (concat (map (\<lambda>i.
         if i < length specs
         then [SetRGB 1.0 0.85 0.0,
               DrawStringAnchored (specs ! i) rightX (planetY + real (i * step)) 0.0 0.5]
         else [])
       [0..<k]))
   = map (\<lambda>i. DrawStringAnchored (specs ! i) rightX (planetY + real (i * step)) 0.0 0.5) [0..<k]"
  by (induction k) (auto simp: textCalls_def)

lemma textCalls_drawSpecial:
  assumes "length specs \<le> m"
  shows "textCalls (drawSpecial rightX planetY step m specs)
   = map (\<lambda>i. DrawStringAnchored (specs ! i) rightX (planetY + real (i * step)) 0.0 0.5)
       [0..<length specs]"
proof -
  have "[0..<m] = [0..<length specs] @ [length specs..<m]"
    using assms by (metis le_add_diff_inverse upt_add_eq_append zero_le)
  then show ?thesis
    unfolding drawSpecial_def
    by (simp add: textCalls_append special_loop_beyond special_loop_within del: upt.simps)
qed

lemma textCalls_drawLabels:
  "textCalls (drawLabels leftX rightX planetY step regs specs)
   = pairedLayout leftX rightX planetY step regs specs"
  by (simp add: drawLabels_def pairedLayout_def textCalls_append textCalls_drawRegular
        textCalls_drawSpecial Let_def textCalls_Cons textCalls_Nil)

lemma pairedLayout_empty: "pairedLayout lx rx y st [] [] = []"
  by (simp add: pairedLayout_def)

lemma textCalls_northDraw1:
  "textCalls (northDraw1 regs specs) = pairedLayout 360 400 140 20 regs specs"
  by (simp add: northDraw1_def textCalls_drawLabels pairedLayout_empty textCalls_Nil)

lemma textCalls_southDraw:
  "textCalls (southDraw rect regs specs)
   = pairedLayout (real_of_int (MinX rect + MaxX rect) / 2 - 25)
       (real_of_int (MinX rect + MaxX rect) / 2 + 25) (real_of_int (MinY rect) + 25) 25 regs specs"
  by (simp add: southDraw_def Let_def textCalls_append textCalls_Cons textCalls_Nil
       textCalls_drawLabels)

lemma textCalls_northDraw:
  assumes "pos_planetX pos \<noteq> 0 \<or> pos_planetY pos \<noteq> 0"
  shows "textCalls (northDraw pos regs specs)
   = pairedLayout (pos_planetX pos - 20) (pos_planetX pos + 20) (pos_planetY pos) 20 regs specs"
proof (cases "regs = [] \<and> specs = []")
  case True
  then show ?thesis by (simp add: northDraw_def pairedLayout_empty textCalls_Nil)
next
  case False
  then have "length regs > 0 \<or> length specs > 0" by auto
  with assms show ?thesis
    by (auto simp add: northDraw_def Let_def textCalls_drawLabels)
qed

lemma rashiPositions_anchor:
  "\<forall>pos\<in>set rashiPositions. pos_planetX pos \<noteq> 0 \<or> pos_planetY pos \<noteq> 0"
  by (simp add: rashiPositions_def)

text \<open>
  The layout drawn is the layout of the specification with every horizontal anchor
  mirrored: texts, points and vertical coordinates are the same.
\<close>

lemma pairedLayout_mirrors_spec:
  "pairedLayout leftX rightX anchorY step regs specs
   = map mirrorAnchor (specPairedLayout leftX rightX anchorY step regs specs)"
  by (simp add: pairedLayout_def specPairedLayout_def)

text \<open>
  C9. In every slot of both charts the text calls are exactly the paired layout: entry
  \<open>i\<close> of the regular group and entry \<open>i\<close> of the special group are drawn at the
  same vertical coordinate, the anchor plus \<open>i\<close> times the step (20 in the North chart,
  25 in the South chart), the regular one right-aligned at the left offset (horizontal
  anchor 1) and the special one left-aligned at the mirrored right offset (horizontal
  anchor 0); an entry beyond the length of the other group is drawn at the coordinate of
  its own index.
\<close>

theorem label_pairing:
  "textCalls (northDraw1 regs specs) = pairedLayout 360 400 140 20 regs specs
   \<and> (\<forall>pos\<in>set rashiPositions.
         textCalls (northDraw pos regs specs)
         = pairedLayout (pos_planetX pos - 20) (pos_planetX pos + 20) (pos_planetY pos) 20
             regs specs)
   \<and> textCalls (southDraw rect regs specs)
       = pairedLayout (real_of_int (MinX rect + MaxX rect) / 2 - 25)
           (real_of_int (MinX rect + MaxX rect) / 2 + 25) (real_of_int (MinY rect) + 25) 25
           regs specs"
  using rashiPositions_anchor
  by (simp add: textCalls_northDraw1 textCalls_northDraw textCalls_southDraw)

lemma upt3: "[0..<3] = [0, 1, 2]" "[0..<2] = [0, 1]" "[0..<Suc 0] = [0]"
  by (simp_all add: upt_rec)

theorem label_pairing_witness:
  "textCalls (northDraw1 [''Asc'', ''Su'', ''MoR''] [''BL'', ''HL''])
     = [DrawStringAnchored ''Asc'' 360 140 1 0.5, DrawStringAnchored ''Su'' 360 160 1 0.5,
        DrawStringAnchored ''MoR'' 360 180 1 0.5,
        DrawStringAnchored ''BL'' 400 140 0 0.5, DrawStringAnchored ''HL'' 400 160 0 0.5]
   \<and> RashiPosition 220 160 (-5) 180 70 \<in> set rashiPositions
   \<and> textCalls (northDraw (RashiPosition 220 160 (-5) 180 70) [''Su''] [''BL'', ''HL''])
     = [DrawStringAnchored ''Su'' 160 70 1 0.5,
        DrawStringAnchored ''BL'' 200 70 0 0.5, DrawStringAnchored ''HL'' 200 90 0 0.5]
   \<and> textCalls (southDraw (houseRect 1) [''Asc'', ''Su''] [''BL''])
     = [DrawStringAnchored ''Asc'' 285 65 1 0.5, DrawStringAnchored ''Su'' 285 90 1 0.5,
        DrawStringAnchored ''BL'' 335 65 0 0.5]"
proof -
  have m: "RashiPosition 220 160 (-5) 180 70 \<in> set rashiPositions"
    by (simp add: rashiPositions_def)
  have r: "houseRect 1 = \<lparr>MinX = 220, MinY = 40, MaxX = 400, MaxY = 220\<rparr>"
    by (simp add: houseRect_def houseRects_def Rect_def padding_def cellSize_def gridSize_def)
  note p = label_pairing
  show ?thesis
    using m
    by (simp add: p [of "[''Asc'', ''Su'', ''MoR'']" "[''BL'', ''HL'']"]
          bspec [OF conjunct1 [OF conjunct2 [OF p]] m]
          conjunct2 [OF conjunct2 [OF p]] r pairedLayout_def upt3)
qed

text \<open>
  The regular label \<^verbatim>\<open>Su\<close> is drawn right-aligned (horizontal anchor 1) and the
  special label \<^verbatim>\<open>BL\<close> left-aligned (horizontal anchor 0), in the North and in the
  South chart: not the left-aligned regular and right-aligned special labels of the
  specification.
\<close>

theorem label_alignment_counterexample:
  "textCalls (northDraw1 [''Su''] [''BL''])
     = [DrawStringAnchored ''Su'' 360 140 1 0.5, DrawStringAnchored ''BL'' 400 140 0 0.5]
   \<and> specPairedLayout 360 400 140 20 [''Su''] [''BL'']
     = [DrawStringAnchored ''Su'' 360 140 0 0.5, DrawStringAnchored ''BL'' 400 140 1 0.5]
   \<and> textCalls (northDraw1 [''Su''] [''BL'']) \<noteq> specPairedLayout 360 400 140 20 [''Su''] [''BL'']
   \<and> textCalls (southDraw \<lparr>MinX = 220, MinY = 40, MaxX = 400, MaxY = 220\<rparr> [''Su''] [''BL''])
     = [DrawStringAnchored ''Su'' 285 65 1 0.5, DrawStringAnchored ''BL'' 335 65 0 0.5]
   \<and> textCalls (southDraw \<lparr>MinX = 220, MinY = 40, MaxX = 400, MaxY = 220\<rparr> [''Su''] [''BL''])
     \<noteq> specPairedLayout 285 335 65 25 [''Su''] [''BL'']"
  by (simp add: textCalls_northDraw1 textCalls_southDraw pairedLayout_def specPairedLayout_def)

section \<open>Errors of the entry point\<close>

text \<open>
  C4. A request whose chart type is neither empty nor one of the two supported styles
  (such as the declared style \<^verbatim>\<open>east\<close>) makes GenerateChart return the error
  \<^verbatim>\<open>unsupported chart type: \<close> followed by the offending value, together with the
  empty string: no generator runs and nothing is drawn.
\<close>

theorem unsupported_chart_type:
  assumes "ChartType input \<noteq> []" "ChartType input \<noteq> ChartTypeSouth"
    "ChartType input \<noteq> ChartTypeNorth"
  shows "GenerateChart env order input
         = Inr ([], Some (Error (''unsupported chart type: '' @ ChartType input)))"
  using assms by (simp add: GenerateChart_def)

theorem unsupported_chart_type_witness:
  "GenerateChart env0 (\<lambda>p. []) (mkInput ChartTypeEast [] None)
   = Inr ([], Some (Error ''unsupported chart type: east''))"
proof -
  let ?input = "mkInput ChartTypeEast [] None"
  have h: "ChartType ?input \<noteq> []" "ChartType ?input \<noteq> ChartTypeSouth"
    "ChartType ?input \<noteq> ChartTypeNorth"
    by (simp_all add: mkInput_def ChartTypeEast_def ChartTypeSouth_def ChartTypeNorth_def)
  show ?thesis
    using unsupported_chart_type [OF h, of env0 "\<lambda>p. []"]
    by (simp add: mkInput_def ChartTypeEast_def)
qed

text \<open>
  C10. A request whose chart type is the empty string makes GenerateChart return the error
  \<^verbatim>\<open>chart_type is required\<close> together with the empty string; that error differs from
  every unsupported-style error.
\<close>

theorem empty_chart_type:
  assumes "ChartType input = []"
  shows "GenerateChart env order input = Inr ([], Some (Error ''chart_type is required''))
       \<and> Error ''chart_type is required'' \<noteq> Error (''unsupported chart type: '' @ t)"
  using assms by (simp add: GenerateChart_def)

theorem empty_chart_type_witness:
  "GenerateChart env0 (\<lambda>p. []) (mkInput [] [] None)
     = Inr ([], Some (Error ''chart_type is required''))
   \<and> Error ''chart_type is required'' \<noteq> Error (''unsupported chart type: '' @ [])"
proof -
  have h: "ChartType (mkInput [] [] None) = []" by (simp add: mkInput_def)
  show ?thesis by (rule empty_chart_type [OF h])
qed

section \<open>Occupants and their labels\<close>

lemma drawnStrings_Nil: "drawnStrings [] = []"
  by (simp add: drawnStrings_def textCalls_Nil)

lemma drawnStrings_Cons:
  "drawnStrings (c # cs) = (if isText c then textOf c # drawnStrings cs else drawnStrings cs)"
  by (simp add: drawnStrings_def textCalls_Cons)

lemma drawnStrings_append: "drawnStrings (a @ b) = drawnStrings a @ drawnStrings b"
  by (simp add: drawnStrings_def textCalls_append)

lemma drawnStrings_pairedLayout:
  "map textOf (pairedLayout lx rx y st regs specs) = regs @ specs"
  by (simp add: pairedLayout_def o_def map_nth)

lemma drawnStrings_southDraw: "drawnStrings (southDraw rect regs specs) = regs @ specs"
  by (simp add: drawnStrings_def textCalls_southDraw drawnStrings_pairedLayout)

lemma drawnStrings_lagnaMarker: "drawnStrings (lagnaMarker rect) = []"
  by (simp add: lagnaMarker_def Let_def drawnStrings_Cons drawnStrings_Nil)

text \<open>
  C6. In the South style the house \<open>houseNum\<close> prints the number \<open>houseNum\<close> and
  collects the planets whose sign number is \<open>houseNum\<close>, whatever the sign of the
  ascendant is: the texts drawn in the house are that number, then the label of the
  ascendant when the house is the one of the ascendant, then the labels of the planets of
  sign \<open>houseNum\<close>, regular group first.
\<close>

theorem south_house_sign:
  assumes "None \<notin> snd ` set (order houseNum)"
  shows "\<exists>cmds. southHouse env input lagnaRashi order houseNum = Inr cmds
     \<and> drawnStrings cmds =
         Sprintf_d houseNum
         # (if Lagna input \<noteq> None \<and> 0 < lagnaRashi \<and> houseNum = lagnaRashi
            then [GetPlanetDisplayName env ''lagna'' (Lagna input)] else [])
         @ filter (\<lambda>a. \<not> IsSpecialLagnaAbbrev env a input)
             (slotLabels env houseNum (order houseNum))
         @ filter (\<lambda>a. IsSpecialLagnaAbbrev env a input)
             (slotLabels env houseNum (order houseNum))"
proof -
  note c = collectPlanets_eq [OF assms, of env input houseNum]
  show ?thesis
    by (simp add: southHouse_def southOccupants_def c Let_def drawnStrings_append
          drawnStrings_southDraw drawnStrings_lagnaMarker drawnStrings_Cons drawnStrings_Nil)
qed

lemmas registry_defs =
  RashiToNumber_def GetPlanetAbbreviation_def GetPlanetDisplayName_def planetLabel_def
  rashiMap_def abbrevMap_def asciiToLower_def asciiLowerChar_def env0_def mkPlanet_def
  mkInput_def Let_def

theorem south_house_sign_witness:
  "None \<notin> snd ` set [(''sun'', Some (mkPlanet ''taurus'' False False)),
                       (''moon'', Some (mkPlanet ''Leo'' True False))]
   \<and> (\<exists>cmds. southHouse env0
         (mkInput ChartTypeSouth
            [(''sun'', Some (mkPlanet ''taurus'' False False)),
             (''moon'', Some (mkPlanet ''Leo'' True False))]
            (Some (mkPlanet ''leo'' False False)))
         5
         (\<lambda>p. [(''sun'', Some (mkPlanet ''taurus'' False False)),
                (''moon'', Some (mkPlanet ''Leo'' True False))])
         2 = Inr cmds
       \<and> drawnStrings cmds = [''2'', ''Su''])"
proof -
  let ?es = "[(''sun'', Some (mkPlanet ''taurus'' False False)),
              (''moon'', Some (mkPlanet ''Leo'' True False))]"
  let ?input = "mkInput ChartTypeSouth ?es (Some (mkPlanet ''leo'' False False))"
  have h: "None \<notin> snd ` set ?es" by simp
  have l: "slotLabels env0 2 ?es = [''Su'']"
    by (simp add: slotLabels_def registry_defs)
  have d: "Sprintf_d 2 = ''2''"
    by (simp add: Sprintf_d_def digits.simps)
  have sp: "\<And>a. \<not> IsSpecialLagnaAbbrev env0 a ?input"
    by (simp add: env0_def)
  note t = south_house_sign [where order = "\<lambda>p. ?es" and houseNum = 2 and env = env0
      and input = ?input and lagnaRashi = 5]
  from t h show ?thesis
    unfolding l d by (simp add: sp)
qed

lemma slotLabels_member:
  assumes "(name, Some pl) \<in> set es" "0 < RashiToNumber env (Rashi pl)"
    "RashiToNumber env (Rashi pl) = n"
  shows "planetLabel env name pl \<in> set (slotLabels env n es)"
  using assms by (force simp add: slotLabels_def)

text \<open>
  C7. The label of a planet that is both retrograde and combust is its base label (the
  custom display name when there is one, else the abbreviation) followed by \<^verbatim>\<open>RC\<close>,
  and it is this label that enters the special or the regular group of the slot of its
  sign, in the North and in the South chart.
\<close>

theorem retrograde_combust_suffix:
  assumes "IsRetrograde pl" "IsCombust pl"
    and "(name, Some pl) \<in> set es" "None \<notin> snd ` set es"
    and "RashiToNumber env (Rashi pl) = n" "0 < n"
  shows "planetLabel env name pl
           = (if Display pl \<noteq> [] then Display pl else GetPlanetAbbreviation env name) @ ''RC''
     \<and> (\<exists>r s r' s'.
           northOccupants env input lagnaRashi es n = Inr (r, s)
         \<and> southOccupants env input lagnaRashi es n = Inr (r', s')
         \<and> (if IsSpecialLagnaAbbrev env (planetLabel env name pl) input
             then planetLabel env name pl \<in> set s \<and> planetLabel env name pl \<in> set s'
             else planetLabel env name pl \<in> set r \<and> planetLabel env name pl \<in> set r'))"
proof -
  have a: "planetLabel env name pl
           = (if Display pl \<noteq> [] then Display pl else GetPlanetAbbreviation env name) @ ''RC''"
    using assms(1,2) by (simp add: planetLabel_def GetPlanetDisplayName_def)
  have m: "planetLabel env name pl \<in> set (slotLabels env n es)"
    using assms(3,5,6) by (intro slotLabels_member) simp_all
  note c = collectPlanets_eq [OF assms(4), of env input n]
  have b: "\<exists>r s r' s'.
           northOccupants env input lagnaRashi es n = Inr (r, s)
         \<and> southOccupants env input lagnaRashi es n = Inr (r', s')
         \<and> (if IsSpecialLagnaAbbrev env (planetLabel env name pl) input
             then planetLabel env name pl \<in> set s \<and> planetLabel env name pl \<in> set s'
             else planetLabel env name pl \<in> set r \<and> planetLabel env name pl \<in> set r')"
    using m by (simp add: northOccupants_def southOccupants_def c)
  from a b show ?thesis by (rule conjI)
qed

theorem retrograde_combust_suffix_witness:
  "planetLabel env0 ''jupiter'' (mkPlanet ''leo'' True True) = ''JuRC''
   \<and> (\<exists>r s r' s'.
         northOccupants env0 (mkInput ChartTypeNorth [(''jupiter'', Some (mkPlanet ''leo'' True True))] None)
           1 [(''jupiter'', Some (mkPlanet ''leo'' True True))] 5 = Inr (r, s)
       \<and> southOccupants env0 (mkInput ChartTypeNorth [(''jupiter'', Some (mkPlanet ''leo'' True True))] None)
           1 [(''jupiter'', Some (mkPlanet ''leo'' True True))] 5 = Inr (r', s')
       \<and> ''JuRC'' \<in> set r \<and> ''JuRC'' \<in> set r')"
proof -
  let ?pl = "mkPlanet ''leo'' True True"
  let ?es = "[(''jupiter'', Some ?pl)]"
  have h: "IsRetrograde ?pl" "IsCombust ?pl" "(''jupiter'', Some ?pl) \<in> set ?es"
    "None \<notin> snd ` set ?es" "RashiToNumber env0 (Rashi ?pl) = 5" "(0::int) < 5"
    by (simp_all add: registry_defs)
  have l: "planetLabel env0 ''jupiter'' ?pl = ''JuRC''"
    by (simp add: registry_defs)
  have sp: "\<not> IsSpecialLagnaAbbrev env0 ''JuRC'' (mkInput ChartTypeNorth ?es None)"
    by (simp add: env0_def)
  show ?thesis
    using retrograde_combust_suffix [OF h, of "mkInput ChartTypeNorth ?es None" 1]
    unfolding l using sp by simp
qed

lemma lagna_label_flags:
  "GetPlanetDisplayName env name (Some (l\<lparr>IsRetrograde := a, IsCombust := b\<rparr>))
   = GetPlanetDisplayName env name (Some l)"
  by (simp add: GetPlanetDisplayName_def)

text \<open>
  C8. When the request has an ascendant, its label is the first entry of the regular group
  of the slot of its sign (position 1 in the North chart, the house of its sign in the
  South chart); the label is the display name of the ascendant, or the abbreviation of
  \<^verbatim>\<open>lagna\<close>, with nothing appended, and it does not depend on the flags
  IsRetrograde and IsCombust of the ascendant.
\<close>

theorem ascendant_label_unsuffixed:
  assumes "Lagna input = Some l" "None \<notin> snd ` set es"
  shows "(\<exists>r s. northOccupants env input (lagnaRashiNum env input) es
                  (getRashiForPosition (lagnaRashiNum env input) 1)
                = Inr (GetPlanetDisplayName env ''lagna'' (Some l) # r, s))
     \<and> (\<exists>r s. southOccupants env input (lagnaRashiNum env input) es (lagnaRashiNum env input)
                = Inr (GetPlanetDisplayName env ''lagna'' (Some l) # r, s))
     \<and> GetPlanetDisplayName env ''lagna'' (Some l)
         = (if Display l \<noteq> [] then Display l else GetPlanetAbbreviation env ''lagna'')
     \<and> GetPlanetDisplayName env ''lagna'' (Some (l\<lparr>IsRetrograde := a, IsCombust := b\<rparr>))
         = GetPlanetDisplayName env ''lagna'' (Some l)"
proof -
  note c = collectPlanets_eq [OF assms(2), of env input]
  have pos: "0 < lagnaRashiNum env input"
    using lagnaRashiNum_range [of env input] by simp
  have n: "\<exists>r s. northOccupants env input (lagnaRashiNum env input) es
                  (getRashiForPosition (lagnaRashiNum env input) 1)
                = Inr (GetPlanetDisplayName env ''lagna'' (Some l) # r, s)"
    using assms(1) by (simp add: northOccupants_def getRashiForPosition_def c)
  have s: "\<exists>r s. southOccupants env input (lagnaRashiNum env input) es (lagnaRashiNum env input)
                = Inr (GetPlanetDisplayName env ''lagna'' (Some l) # r, s)"
    using assms(1) pos by (simp add: southOccupants_def c)
  have d: "GetPlanetDisplayName env ''lagna'' (Some l)
         = (if Display l \<noteq> [] then Display l else GetPlanetAbbreviation env ''lagna'')"
    by (simp add: GetPlanetDisplayName_def)
  from n s d lagna_label_flags show ?thesis by blast
qed

theorem ascendant_label_unsuffixed_witness:
  "(\<exists>r s. northOccupants env0 (mkInput ChartTypeNorth [] (Some (mkPlanet ''leo'' True True))) 5 []
            (getRashiForPosition 5 1) = Inr (''Asc'' # r, s))
   \<and> (\<exists>r s. southOccupants env0 (mkInput ChartTypeNorth [] (Some (mkPlanet ''leo'' True True))) 5 [] 5
            = Inr (''Asc'' # r, s))"
proof -
  let ?l = "mkPlanet ''leo'' True True"
  let ?input = "mkInput ChartTypeNorth [] (Some ?l)"
  have h: "Lagna ?input = Some ?l" "None \<notin> snd ` set ([] :: (string \<times> Planet option) list)"
    by (simp_all add: mkInput_def)
  have n: "lagnaRashiNum env0 ?input = 5"
    by (simp add: lagnaRashiNum_def registry_defs)
  have d: "GetPlanetDisplayName env0 ''lagna'' (Some ?l) = ''Asc''"
    by (simp add: registry_defs)
  show ?thesis
    using ascendant_label_unsuffixed [OF h, of env0] unfolding n d by blast
qed

section \<open>Sign names that do not resolve\<close>

lemma inSequence_all_Inr:
  assumes "\<forall>step\<in>set steps. \<exists>cmds. step = Inr cmds"
  shows "\<exists>cmds. inSequence steps = Inr cmds"
  using assms
proof (induction steps)
  case Nil
  then show ?case by simp
next
  case (Cons step steps)
  then obtain c cs where "step = Inr c" "inSequence steps = Inr cs" by auto
  then show ?case by simp
qed

lemma northPosition1_returns:
  assumes "None \<notin> snd ` set es"
  shows "\<exists>cmds. northPosition1 env input L es = Inr cmds"
  by (simp add: northPosition1_def northOccupants_def collectPlanets_eq [OF assms] Let_def)

lemma northPosition_returns:
  assumes "\<forall>p. None \<notin> snd ` set (order p)"
  shows "\<exists>cmds. northPosition env input L order ipos = Inr cmds"
proof -
  obtain i pos where ipos: "ipos = (i, pos)" by (cases ipos)
  have "None \<notin> snd ` set (order (int i + 2))" using assms by blast
  then show ?thesis
    unfolding ipos by (simp add: northPosition_def northOccupants_def collectPlanets_eq Let_def)
qed

lemma southHouse_returns:
  assumes "\<forall>p. None \<notin> snd ` set (order p)"
  shows "\<exists>cmds. southHouse env input L order h = Inr cmds"
proof -
  have "None \<notin> snd ` set (order h)" using assms by blast
  then show ?thesis
    by (simp add: southHouse_def southOccupants_def collectPlanets_eq Let_def)
qed

lemma northCanvas_returns:
  assumes "\<forall>p. None \<notin> snd ` set (order p)"
  shows "\<exists>cmds. northCanvas env order input = Inr cmds"
proof -
  have "None \<notin> snd ` set (order 1)" using assms by blast
  then have p1: "\<exists>cmds. northPosition1 env input (lagnaRashiNum env input) (order 1) = Inr cmds"
    by (rule northPosition1_returns)
  show ?thesis
    unfolding northCanvas_def Let_def
    by (rule inSequence_all_Inr) (use p1 northPosition_returns [OF assms] in auto)
qed

lemma southCanvas_returns:
  assumes "\<forall>p. None \<notin> snd ` set (order p)"
  shows "\<exists>cmds. southCanvas env order input = Inr cmds"
  unfolding southCanvas_def Let_def
  by (rule inSequence_all_Inr) (use southHouse_returns [OF assms] in auto)

lemma GenerateChart_succeeds:
  assumes "\<forall>p. None \<notin> snd ` set (order p)"
    and "ChartType input = ChartTypeNorth \<or> ChartType input = ChartTypeSouth"
    and "\<forall>img. \<exists>bytes. png_Encode env img = Inr bytes"
  shows "\<exists>encoded. GenerateChart env order input = Inr (encoded, None)"
proof -
  obtain n where n: "northCanvas env order input = Inr n"
    using northCanvas_returns [OF assms(1)] by blast
  obtain s where s: "southCanvas env order input = Inr s"
    using southCanvas_returns [OF assms(1)] by blast
  obtain bn where bn: "png_Encode env n = Inr bn" using assms(3) by blast
  obtain bs where bs: "png_Encode env s = Inr bs" using assms(3) by blast
  have ne: "ChartTypeNorth \<noteq> []" "ChartTypeSouth \<noteq> []" "ChartTypeNorth \<noteq> ChartTypeSouth"
    by (simp_all add: ChartTypeNorth_def ChartTypeSouth_def)
  from assms(2) show ?thesis
  proof
    assume "ChartType input = ChartTypeNorth"
    then show ?thesis
      using ne by (simp add: GenerateChart_def GenerateNorthChart_def finishChart_def
          encodePNG_def n bn)
  next
    assume "ChartType input = ChartTypeSouth"
    then show ?thesis
      using ne by (simp add: GenerateChart_def GenerateSouthChart_def finishChart_def
          encodePNG_def s bs)
  qed
qed

lemma slotLabels_unresolved:
  assumes "RashiToNumber env (Rashi pl) = 0"
  shows "slotLabels env n (es @ (name, Some pl) # es') = slotLabels env n (es @ es')"
  using assms by (simp add: slotLabels_append slotLabels_Cons_Some)

lemma collectPlanets_unresolved:
  assumes "RashiToNumber env (Rashi pl) = 0"
  shows "collectPlanets env input n (es @ (name, Some pl) # es') g
         = collectPlanets env input n (es @ es') g"
proof (induction es arbitrary: g)
  case Nil
  obtain r s where g: "g = (r, s)" by (cases g)
  show ?case unfolding g using assms by (simp add: Let_def)
next
  case (Cons e es)
  obtain k v where e: "e = (k, v)" by (cases e)
  obtain r s where g: "g = (r, s)" by (cases g)
  show ?case
    unfolding e g by (cases v) (simp_all add: Let_def Cons.IH)
qed

text \<open>
  C3. A sign name that does not resolve never makes rendering fail: whenever the map holds
  no nil pointer, the chart type is supported and the encoder succeeds, GenerateChart
  returns an image and no error. An ascendant whose sign name does not resolve is treated
  as sign 1: its label heads the regular group of the slot of sign 1 in both charts. A
  planet whose sign name does not resolve is placed in no slot: every collection gives
  the result it gives without that entry.
\<close>

theorem unresolved_sign_policy:
  assumes "\<forall>p. None \<notin> snd ` set (order p)"
    and "ChartType input = ChartTypeNorth \<or> ChartType input = ChartTypeSouth"
    and "\<forall>img. \<exists>bytes. png_Encode env img = Inr bytes"
  shows "(\<exists>encoded. GenerateChart env order input = Inr (encoded, None))
     \<and> (\<forall>l. Lagna input = Some l \<and> RashiToNumber env (Rashi l) = 0 \<longrightarrow>
           lagnaRashiNum env input = 1
         \<and> getRashiForPosition (lagnaRashiNum env input) 1 = 1
         \<and> (\<exists>r s. northOccupants env input (lagnaRashiNum env input) (order 1) 1
                    = Inr (GetPlanetDisplayName env ''lagna'' (Some l) # r, s))
         \<and> (\<exists>r s. southOccupants env input (lagnaRashiNum env input) (order 1) 1
                    = Inr (GetPlanetDisplayName env ''lagna'' (Some l) # r, s)))
     \<and> (\<forall>name pl n es es' g. RashiToNumber env (Rashi pl) = 0 \<longrightarrow>
           collectPlanets env input n (es @ (name, Some pl) # es') g
           = collectPlanets env input n (es @ es') g)"
proof -
  note a = GenerateChart_succeeds [OF assms]
  have b: "\<forall>l. Lagna input = Some l \<and> RashiToNumber env (Rashi l) = 0 \<longrightarrow>
           lagnaRashiNum env input = 1
         \<and> getRashiForPosition (lagnaRashiNum env input) 1 = 1
         \<and> (\<exists>r s. northOccupants env input (lagnaRashiNum env input) (order 1) 1
                    = Inr (GetPlanetDisplayName env ''lagna'' (Some l) # r, s))
         \<and> (\<exists>r s. southOccupants env input (lagnaRashiNum env input) (order 1) 1
                    = Inr (GetPlanetDisplayName env ''lagna'' (Some l) # r, s))"
  proof (intro allI impI)
    fix l
    assume h: "Lagna input = Some l \<and> RashiToNumber env (Rashi l) = 0"
    then have n: "lagnaRashiNum env input = 1"
      by (simp add: lagnaRashiNum_def)
    have nn: "None \<notin> snd ` set (order 1)" using assms(1) by blast
    note c = collectPlanets_eq [OF nn, of env input 1]
    show "lagnaRashiNum env input = 1
         \<and> getRashiForPosition (lagnaRashiNum env input) 1 = 1
         \<and> (\<exists>r s. northOccupants env input (lagnaRashiNum env input) (order 1) 1
                    = Inr (GetPlanetDisplayName env ''lagna'' (Some l) # r, s))
         \<and> (\<exists>r s. southOccupants env input (lagnaRashiNum env input) (order 1) 1
                    = Inr (GetPlanetDisplayName env ''lagna'' (Some l) # r, s))"
      using h by (simp add: n getRashiForPosition_def northOccupants_def southOccupants_def c)
  qed
  have c: "\<forall>name pl n es es' g. RashiToNumber env (Rashi pl) = 0 \<longrightarrow>
           collectPlanets env input n (es @ (name, Some pl) # es') g
           = collectPlanets env input n (es @ es') g"
    by (simp add: collectPlanets_unresolved)
  from a b c show ?thesis by blast
qed

theorem unresolved_sign_policy_witness:
  "(\<exists>encoded. GenerateChart env0 (\<lambda>p. [(''sun'', Some (mkPlanet ''xyz'' False False))])
       (mkInput ChartTypeNorth [(''sun'', Some (mkPlanet ''xyz'' False False))]
          (Some (mkPlanet ''nowhere'' False False)))
     = Inr (encoded, None))
   \<and> lagnaRashiNum env0
       (mkInput ChartTypeNorth [(''sun'', Some (mkPlanet ''xyz'' False False))]
          (Some (mkPlanet ''nowhere'' False False))) = 1
   \<and> (\<exists>r s. northOccupants env0
         (mkInput ChartTypeNorth [(''sun'', Some (mkPlanet ''xyz'' False False))]
            (Some (mkPlanet ''nowhere'' False False)))
         1 [(''sun'', Some (mkPlanet ''xyz'' False False))] 1 = Inr (''Asc'' # r, s))
   \<and> collectPlanets env0
         (mkInput ChartTypeNorth [(''sun'', Some (mkPlanet ''xyz'' False False))]
            (Some (mkPlanet ''nowhere'' False False)))
         1 [(''sun'', Some (mkPlanet ''xyz'' False False))] ([], [])
       = Inr ([], [])"
proof -
  let ?es = "[(''sun'', Some (mkPlanet ''xyz'' False False))]"
  let ?l = "mkPlanet ''nowhere'' False False"
  let ?input = "mkInput ChartTypeNorth ?es (Some ?l)"
  have h: "\<forall>p::int. None \<notin> snd ` set ((\<lambda>p. ?es) p)"
    "ChartType ?input = ChartTypeNorth \<or> ChartType ?input = ChartTypeSouth"
    "\<forall>img. \<exists>bytes. png_Encode env0 img = Inr bytes"
    by (simp_all add: mkInput_def env0_def)
  note t = unresolved_sign_policy [OF h]
  have l: "Lagna ?input = Some ?l \<and> RashiToNumber env0 (Rashi ?l) = 0"
    by (simp add: registry_defs)
  have p: "RashiToNumber env0 (Rashi (mkPlanet ''xyz'' False False)) = 0"
    by (simp add: registry_defs)
  have d: "GetPlanetDisplayName env0 ''lagna'' (Some ?l) = ''Asc''"
    by (simp add: registry_defs)
  from t have t1: "\<exists>encoded. GenerateChart env0 (\<lambda>p. ?es) ?input = Inr (encoded, None)"
    by (rule conjunct1)
  from t l have t2: "lagnaRashiNum env0 ?input = 1"
    by blast
  from t l have "\<exists>r s. northOccupants env0 ?input (lagnaRashiNum env0 ?input) ?es 1
                    = Inr (GetPlanetDisplayName env0 ''lagna'' (Some ?l) # r, s)"
    by blast
  then have t3: "\<exists>r s. northOccupants env0 ?input 1 ?es 1 = Inr (''Asc'' # r, s)"
    unfolding t2 d .
  from t p have "collectPlanets env0 ?input 1
             ([] @ (''sun'', Some (mkPlanet ''xyz'' False False)) # []) ([], [])
           = collectPlanets env0 ?input 1 ([] @ []) ([], [])"
    by blast
  then have t4: "collectPlanets env0 ?input 1 ?es ([], []) = Inr ([], [])"
    by (simp only: append_Nil collectPlanets.simps)
  from t1 t2 t3 t4 show ?thesis by (intro conjI)
qed

text \<open>
  A planet with the sign name \<^verbatim>\<open>xyz\<close> appears in none of the twelve South houses and
  not in North position 1, whereas with the sign name \<^verbatim>\<open>aries\<close> it is in house 1.
\<close>

theorem unresolved_planet_counterexample:
  "map (southOccupants env0
         (mkInput ChartTypeSouth [(''sun'', Some (mkPlanet ''xyz'' False False))]
            (Some (mkPlanet ''aries'' False False)))
         1 [(''sun'', Some (mkPlanet ''xyz'' False False))])
     [1, 2, 3, 4, 5, 6, 7, 8, 9, 10, 11, 12]
   = Inr ([''Asc''], []) # replicate 11 (Inr ([], []))
   \<and> southOccupants env0
         (mkInput ChartTypeSouth [(''sun'', Some (mkPlanet ''aries'' False False))]
            (Some (mkPlanet ''aries'' False False)))
         1 [(''sun'', Some (mkPlanet ''aries'' False False))] 1
     = Inr ([''Asc'', ''Su''], [])
   \<and> northOccupants env0
         (mkInput ChartTypeNorth [(''sun'', Some (mkPlanet ''xyz'' False False))]
            (Some (mkPlanet ''aries'' False False)))
         1 [(''sun'', Some (mkPlanet ''xyz'' False False))] 1
     = Inr ([''Asc''], [])"
  by (simp add: southOccupants_def northOccupants_def registry_defs eval_nat_numeral)

section \<open>The default ascendant\<close>

lemma collectPlanets_input_cong:
  assumes "\<forall>abbrev. IsSpecialLagnaAbbrev env abbrev input' = IsSpecialLagnaAbbrev env abbrev input"
  shows "collectPlanets env input' n es g = collectPlanets env input n es g"
proof (induction es arbitrary: g)
  case Nil
  then show ?case by simp
next
  case (Cons e es)
  obtain k v where e: "e = (k, v)" by (cases e)
  obtain r s where g: "g = (r, s)" by (cases g)
  show ?case
    unfolding e g using assms by (cases v) (simp_all add: Let_def Cons.IH)
qed

lemma canvases_cong:
  assumes sp: "\<forall>abbrev. IsSpecialLagnaAbbrev env abbrev input' = IsSpecialLagnaAbbrev env abbrev input"
    and l: "lagnaRashiNum env input' = lagnaRashiNum env input"
    and n: "(Lagna input' \<noteq> None) = (Lagna input \<noteq> None)"
    and d: "GetPlanetDisplayName env ''lagna'' (Lagna input')
            = GetPlanetDisplayName env ''lagna'' (Lagna input)"
    and c: "CenterText input' = CenterText input"
  shows "northCanvas env order input' = northCanvas env order input"
    and "southCanvas env order input' = southCanvas env order input"
proof -
  note cp = collectPlanets_input_cong [OF sp]
  have no: "\<And>L es k. northOccupants env input' L es k = northOccupants env input L es k"
    using n d by (auto simp add: northOccupants_def cp)
  have so: "\<And>L es k. southOccupants env input' L es k = southOccupants env input L es k"
    using n d by (auto simp add: southOccupants_def cp)
  have p1: "\<And>L es. northPosition1 env input' L es = northPosition1 env input L es"
    by (simp add: northPosition1_def no)
  have pn: "\<And>L. northPosition env input' L order = northPosition env input L order"
    by (rule ext) (simp add: northPosition_def no)
  have sh: "\<And>L. southHouse env input' L order = southHouse env input L order"
    using n by (intro ext) (auto simp add: southHouse_def so)
  show "northCanvas env order input' = northCanvas env order input"
    by (simp add: northCanvas_def l p1 pn)
  show "southCanvas env order input' = southCanvas env order input"
    by (simp add: southCanvas_def l sh c)
qed

lemma GenerateChart_cong:
  assumes "northCanvas env order input' = northCanvas env order input"
    and "southCanvas env order input' = southCanvas env order input"
    and "ChartType input' = ChartType input"
  shows "GenerateChart env order input' = GenerateChart env order input"
  using assms by (simp add: GenerateChart_def GenerateNorthChart_def GenerateSouthChart_def)

text \<open>
  C2. An ascendant whose sign name does not resolve gives the same result of GenerateChart,
  in both styles, as the same request with the sign name of the ascendant replaced by
  \<^verbatim>\<open>aries\<close>, provided the predicate for special labels answers alike on the two
  requests. A request without ascendant resolves the ascendant sign to 1 as well, so the
  signs of the slots are those of Aries, but then no slot receives an ascendant label:
  the groups of every slot hold planets only.
\<close>

theorem default_ascendant:
  assumes l: "Lagna input = Some l" and u: "RashiToNumber env (Rashi l) = 0"
    and a: "RashiToNumber env ''aries'' = 1"
    and sp: "\<forall>abbrev. IsSpecialLagnaAbbrev env abbrev (input\<lparr>Lagna := Some (l\<lparr>Rashi := ''aries''\<rparr>)\<rparr>)
                      = IsSpecialLagnaAbbrev env abbrev input"
  shows "GenerateChart env order input
           = GenerateChart env order (input\<lparr>Lagna := Some (l\<lparr>Rashi := ''aries''\<rparr>)\<rparr>)
     \<and> lagnaRashiNum env (input\<lparr>Lagna := None\<rparr>)
           = lagnaRashiNum env (input\<lparr>Lagna := Some (l\<lparr>Rashi := ''aries''\<rparr>)\<rparr>)
     \<and> (\<forall>es n. northOccupants env (input\<lparr>Lagna := None\<rparr>) 1 es n
                 = collectPlanets env (input\<lparr>Lagna := None\<rparr>) n es ([], [])
              \<and> southOccupants env (input\<lparr>Lagna := None\<rparr>) 1 es n
                 = collectPlanets env (input\<lparr>Lagna := None\<rparr>) n es ([], []))"
proof -
  let ?aries = "input\<lparr>Lagna := Some (l\<lparr>Rashi := ''aries''\<rparr>)\<rparr>"
  have n1: "lagnaRashiNum env ?aries = lagnaRashiNum env input"
    using l u a by (simp add: lagnaRashiNum_def)
  have n2: "(Lagna ?aries \<noteq> None) = (Lagna input \<noteq> None)"
    using l by simp
  have n3: "GetPlanetDisplayName env ''lagna'' (Lagna ?aries)
            = GetPlanetDisplayName env ''lagna'' (Lagna input)"
    using l by (simp add: GetPlanetDisplayName_def)
  have n4: "CenterText ?aries = CenterText input" by simp
  note cv = canvases_cong [OF sp n1 n2 n3 n4]
  have "ChartType ?aries = ChartType input" by simp
  with cv have g: "GenerateChart env order ?aries = GenerateChart env order input"
    by (rule GenerateChart_cong)
  have o: "lagnaRashiNum env (input\<lparr>Lagna := None\<rparr>) = lagnaRashiNum env ?aries"
    using a by (simp add: lagnaRashiNum_def)
  have p: "\<forall>es n. northOccupants env (input\<lparr>Lagna := None\<rparr>) 1 es n
                 = collectPlanets env (input\<lparr>Lagna := None\<rparr>) n es ([], [])
              \<and> southOccupants env (input\<lparr>Lagna := None\<rparr>) 1 es n
                 = collectPlanets env (input\<lparr>Lagna := None\<rparr>) n es ([], [])"
    by (simp add: northOccupants_def southOccupants_def)
  from g [symmetric] o p show ?thesis by (intro conjI)
qed

theorem default_ascendant_witness:
  "GenerateChart env0 (\<lambda>p. [(''sun'', Some (mkPlanet ''aries'' False False))])
      (mkInput ChartTypeNorth [(''sun'', Some (mkPlanet ''aries'' False False))]
         (Some (mkPlanet ''nowhere'' True False)))
   = GenerateChart env0 (\<lambda>p. [(''sun'', Some (mkPlanet ''aries'' False False))])
      (mkInput ChartTypeNorth [(''sun'', Some (mkPlanet ''aries'' False False))]
         (Some (mkPlanet ''aries'' True False)))"
proof -
  let ?es = "[(''sun'', Some (mkPlanet ''aries'' False False))]"
  let ?l = "mkPlanet ''nowhere'' True False"
  let ?input = "mkInput ChartTypeNorth ?es (Some ?l)"
  have h: "Lagna ?input = Some ?l" "RashiToNumber env0 (Rashi ?l) = 0"
    "RashiToNumber env0 ''aries'' = 1"
    "\<forall>abbrev. IsSpecialLagnaAbbrev env0 abbrev (?input\<lparr>Lagna := Some (?l\<lparr>Rashi := ''aries''\<rparr>)\<rparr>)
                      = IsSpecialLagnaAbbrev env0 abbrev ?input"
    by (simp_all add: registry_defs)
  have e: "?input\<lparr>Lagna := Some (?l\<lparr>Rashi := ''aries''\<rparr>)\<rparr>
           = mkInput ChartTypeNorth ?es (Some (mkPlanet ''aries'' True False))"
    by (simp add: mkInput_def mkPlanet_def)
  from default_ascendant [OF h, of "\<lambda>p. ?es"] show ?thesis
    unfolding e by (rule conjunct1)
qed

lemma northPositions_empty:
  "Lagna input = None \<or> lagnaRashiNum env input = 1 \<Longrightarrow>
   map (northPosition env input 1 (\<lambda>p. [])) (enumerate 0 rashiPositions)
   = replicate 11 (Inr [])"
  by (auto simp add: rashiPositions_def northPosition_def northOccupants_def northDraw_def
        getRashiForPosition_def signed_modulo_int_def Let_def eval_nat_numeral)

text \<open>
  Without ascendant no label is drawn in the slot of sign 1, with the ascendant in Aries
  the label \<^verbatim>\<open>Asc\<close> is: the calls made on the context differ.
\<close>

theorem omitted_ascendant_counterexample:
  "northOccupants env0 (mkInput ChartTypeNorth [] None) 1 [] 1 = Inr ([], [])
   \<and> northOccupants env0 (mkInput ChartTypeNorth [] (Some (mkPlanet ''aries'' False False))) 1 [] 1
       = Inr ([''Asc''], [])
   \<and> southOccupants env0 (mkInput ChartTypeSouth [] None) 1 [] 1 = Inr ([], [])
   \<and> southOccupants env0 (mkInput ChartTypeSouth [] (Some (mkPlanet ''aries'' False False))) 1 [] 1
       = Inr ([''Asc''], [])
   \<and> northCanvas env0 (\<lambda>p. []) (mkInput ChartTypeNorth [] None)
       \<noteq> northCanvas env0 (\<lambda>p. []) (mkInput ChartTypeNorth [] (Some (mkPlanet ''aries'' False False)))"
proof -
  let ?none = "mkInput ChartTypeNorth [] None"
  let ?aries = "mkInput ChartTypeNorth [] (Some (mkPlanet ''aries'' False False))"
  have o: "northOccupants env0 ?none 1 [] 1 = Inr ([], [])"
    "northOccupants env0 ?aries 1 [] 1 = Inr ([''Asc''], [])"
    "southOccupants env0 (mkInput ChartTypeSouth [] None) 1 [] 1 = Inr ([], [])"
    "southOccupants env0 (mkInput ChartTypeSouth [] (Some (mkPlanet ''aries'' False False))) 1 [] 1
       = Inr ([''Asc''], [])"
    by (simp_all add: northOccupants_def southOccupants_def registry_defs)
  have l: "lagnaRashiNum env0 ?none = 1" "lagnaRashiNum env0 ?aries = 1"
    by (simp_all add: lagnaRashiNum_def registry_defs)
  have r: "inSequence (replicate 11 (Inr [])) = Inr []"
    by (simp add: eval_nat_numeral)
  have pn: "map (northPosition env0 ?none 1 (\<lambda>p. [])) (enumerate 0 rashiPositions)
            = replicate 11 (Inr [])"
    by (rule northPositions_empty) (simp add: mkInput_def)
  have pa: "map (northPosition env0 ?aries 1 (\<lambda>p. [])) (enumerate 0 rashiPositions)
            = replicate 11 (Inr [])"
    by (rule northPositions_empty) (simp add: l)
  have c: "northCanvas env0 (\<lambda>p. []) ?none \<noteq> northCanvas env0 (\<lambda>p. []) ?aries"
    unfolding northCanvas_def Let_def l pn pa
    by (simp add: r northPosition1_def getRashiForPosition_def o northDraw1_def drawLabels_def
          drawRegular_def drawSpecial_def)
  from o c show ?thesis by (intro conjI)
qed

section \<open>The order of enumeration of the planets\<close>

lemma enumerates_distinct: "enumerates m es \<Longrightarrow> distinct es"
  by (auto simp add: enumerates_def distinct_map)

lemma enumerates_member: "enumerates m es \<Longrightarrow> ((k, v) \<in> set es) = (m k = Some v)"
  by (auto simp add: enumerates_def)

lemma enumerates_set_eq:
  assumes "enumerates m es1" "enumerates m es2"
  shows "set es1 = set es2"
proof (rule set_eqI)
  fix e :: "'a \<times> 'b"
  obtain k v where e: "e = (k, v)" by (cases e)
  show "(e \<in> set es1) = (e \<in> set es2)"
    unfolding e enumerates_member [OF assms(1)] enumerates_member [OF assms(2)] ..
qed

lemma enumerates_mset:
  assumes "enumerates m es1" "enumerates m es2"
  shows "mset es1 = mset es2"
  using enumerates_set_eq [OF assms] enumerates_distinct [OF assms(1)]
    enumerates_distinct [OF assms(2)]
  by (simp add: set_eq_iff_mset_eq_distinct)

lemma mset_concat_map:
  "mset (concat (map f es)) = (\<Sum>e\<in>#mset es. mset (f e))"
  by (induction es) simp_all

lemma mset_slotLabels:
  assumes "mset es1 = mset es2"
  shows "mset (slotLabels env n es1) = mset (slotLabels env n es2)"
  by (simp only: slotLabels_def mset_concat_map assms)

lemma sameLabels_collectPlanets:
  assumes "mset es1 = mset es2"
  shows "sameLabels (collectPlanets env input n es1 (r, s)) (collectPlanets env input n es2 (r, s))"
proof (cases "None \<in> snd ` set es1")
  case True
  moreover have "set es1 = set es2" using assms by (rule mset_eq_setD)
  ultimately obtain k1 k2 where "(k1, None) \<in> set es1" "(k2, None) \<in> set es2" by force
  then show ?thesis
    by (simp add: collectPlanets_panics sameLabels_def)
next
  case False
  moreover have "set es1 = set es2" using assms by (rule mset_eq_setD)
  ultimately have nn: "None \<notin> snd ` set es1" "None \<notin> snd ` set es2" by simp_all
  show ?thesis
    by (simp add: collectPlanets_eq [OF nn(1)] collectPlanets_eq [OF nn(2)] sameLabels_def
          mset_slotLabels [OF assms] mset_filter)
qed

lemma slotLabels_inSign:
  "slotLabels env n es = slotLabels env n (filter (inSign env n) es)"
proof (induction es)
  case Nil
  then show ?case by simp
next
  case (Cons e es)
  obtain k v where e: "e = (k, v)" by (cases e)
  show ?case
    unfolding e using Cons.IH
    by (cases v) (simp_all add: slotLabels_def inSign_def)
qed

lemma at_most_one:
  assumes "distinct zs" "\<forall>x\<in>set zs. \<forall>y\<in>set zs. x = y"
  shows "zs = [] \<or> (\<exists>z. zs = [z])"
proof (cases zs)
  case Nil
  then show ?thesis by simp
next
  case (Cons a rest)
  have "rest = []"
  proof (rule ccontr)
    assume "rest \<noteq> []"
    then obtain b where b: "b \<in> set rest" by (cases rest) auto
    with assms(2) Cons have "b = a" by simp
    with b assms(1) Cons show False by simp
  qed
  with Cons show ?thesis by simp
qed

lemma lists_of_one:
  assumes "distinct xs" "distinct ys" "set xs = set ys" "\<forall>x\<in>set xs. \<forall>y\<in>set xs. x = y"
  shows "xs = ys"
proof -
  have lx: "xs = [] \<or> (\<exists>z. xs = [z])" using assms(1,4) by (rule at_most_one)
  have ly: "ys = [] \<or> (\<exists>z. ys = [z])" using assms(2,3,4) by (intro at_most_one) simp_all
  from lx ly assms(3) show ?thesis by auto
qed

lemma inSign_filter_eq:
  assumes e1: "enumerates (Planets input) es1" and e2: "enumerates (Planets input) es2"
    and one: "onePlanetPerSign env input"
  shows "filter (inSign env n) es1 = filter (inSign env n) es2"
proof (rule lists_of_one)
  show "distinct (filter (inSign env n) es1)"
    using enumerates_distinct [OF e1] by simp
  show "distinct (filter (inSign env n) es2)"
    using enumerates_distinct [OF e2] by simp
  show "set (filter (inSign env n) es1) = set (filter (inSign env n) es2)"
    using enumerates_set_eq [OF e1 e2] by simp
  show "\<forall>x\<in>set (filter (inSign env n) es1). \<forall>y\<in>set (filter (inSign env n) es1). x = y"
  proof (intro ballI)
    fix x y
    assume x: "x \<in> set (filter (inSign env n) es1)" and y: "y \<in> set (filter (inSign env n) es1)"
    from x have xin: "x \<in> set es1" and xs: "inSign env n x" by simp_all
    from y have yin: "y \<in> set es1" and ys: "inSign env n y" by simp_all
    obtain k1 v1 where xe: "x = (k1, v1)" by (cases x)
    obtain k2 v2 where ye: "y = (k2, v2)" by (cases y)
    from xs obtain p1 where p1: "v1 = Some p1" and r1: "0 < RashiToNumber env (Rashi p1)"
      and s1: "RashiToNumber env (Rashi p1) = n"
      unfolding xe inSign_def by (cases v1) simp_all
    from ys obtain p2 where p2: "v2 = Some p2" and s2: "RashiToNumber env (Rashi p2) = n"
      unfolding ye inSign_def by (cases v2) simp_all
    from xin have m1: "Planets input k1 = Some (Some p1)"
      unfolding xe p1 by (simp only: enumerates_member [OF e1])
    from yin have m2: "Planets input k2 = Some (Some p2)"
      unfolding ye p2 by (simp only: enumerates_member [OF e1])
    have same: "RashiToNumber env (Rashi p1) = RashiToNumber env (Rashi p2)"
      by (simp only: s1 s2)
    have keq: "k1 = k2"
      by (rule one [unfolded onePlanetPerSign_def, rule_format, of k1 p1 k2 p2])
        (intro conjI m1 m2 r1 same)
    from m1 have "Planets input k2 = Some (Some p1)" unfolding keq .
    with m2 have "p1 = p2" by simp
    then show "x = y" unfolding xe ye p1 p2 keq by simp
  qed
qed

lemma collectPlanets_order_eq:
  assumes e1: "enumerates (Planets input) es1" and e2: "enumerates (Planets input) es2"
    and one: "onePlanetPerSign env input"
  shows "collectPlanets env input n es1 g = collectPlanets env input n es2 g"
proof -
  obtain r s where g: "g = (r, s)" by (cases g)
  have st: "set es1 = set es2" by (rule enumerates_set_eq [OF e1 e2])
  have sl: "slotLabels env n es1 = slotLabels env n es2"
  proof -
    have "slotLabels env n es1 = slotLabels env n (filter (inSign env n) es1)"
      by (rule slotLabels_inSign)
    also have "\<dots> = slotLabels env n (filter (inSign env n) es2)"
      by (simp only: inSign_filter_eq [OF e1 e2 one])
    also have "\<dots> = slotLabels env n es2"
      by (rule slotLabels_inSign [symmetric])
    finally show ?thesis .
  qed
  show ?thesis
  proof (cases "None \<in> snd ` set es1")
    case True
    with st obtain k1 k2 where "(k1, None) \<in> set es1" "(k2, None) \<in> set es2" by force
    then show ?thesis by (simp add: collectPlanets_panics)
  next
    case False
    with st have nn: "None \<notin> snd ` set es1" "None \<notin> snd ` set es2" by simp_all
    show ?thesis
      unfolding g by (simp add: collectPlanets_eq [OF nn(1)] collectPlanets_eq [OF nn(2)] sl)
  qed
qed

text \<open>
  C1. The result of GenerateChart is determined by the request and by the order in which
  each loop enumerates the map of planets. Whatever the enumerations are, every slot of
  both charts gets the same labels in each group (as multisets; a nil pointer panics
  under every enumeration). When no two planets share a sign, GenerateChart returns the
  same result under all enumerations.
\<close>

theorem enumeration_order:
  assumes v1: "validOrder input order1" and v2: "validOrder input order2"
  shows "(\<forall>p q L n.
            sameLabels (northOccupants env input L (order1 p) n)
                       (northOccupants env input L (order2 q) n)
          \<and> sameLabels (southOccupants env input L (order1 p) n)
                       (southOccupants env input L (order2 q) n))
       \<and> (onePlanetPerSign env input \<longrightarrow>
            GenerateChart env order1 input = GenerateChart env order2 input)"
proof -
  have e1: "\<And>p. enumerates (Planets input) (order1 p)"
    using v1 by (simp add: validOrder_def)
  have e2: "\<And>p. enumerates (Planets input) (order2 p)"
    using v2 by (simp add: validOrder_def)
  have ms: "\<And>p q. mset (order1 p) = mset (order2 q)"
    by (rule enumerates_mset [OF e1 e2])
  have a: "\<forall>p q L n.
            sameLabels (northOccupants env input L (order1 p) n)
                       (northOccupants env input L (order2 q) n)
          \<and> sameLabels (southOccupants env input L (order1 p) n)
                       (southOccupants env input L (order2 q) n)"
    unfolding northOccupants_def southOccupants_def
    by (intro allI conjI sameLabels_collectPlanets ms)
  have b: "GenerateChart env order1 input = GenerateChart env order2 input"
    if one: "onePlanetPerSign env input"
  proof -
    have cp: "\<And>p n g. collectPlanets env input n (order1 p) g
                       = collectPlanets env input n (order2 p) g"
      by (rule collectPlanets_order_eq [OF e1 e2 one])
    have p1: "\<And>L. northPosition1 env input L (order1 1) = northPosition1 env input L (order2 1)"
      by (simp add: northPosition1_def northOccupants_def cp)
    have pn: "\<And>L. northPosition env input L order1 = northPosition env input L order2"
      by (rule ext) (simp add: northPosition_def northOccupants_def cp)
    have sh: "\<And>L. southHouse env input L order1 = southHouse env input L order2"
      by (rule ext) (simp add: southHouse_def southOccupants_def cp)
    have n: "northCanvas env order1 input = northCanvas env order2 input"
      by (simp add: northCanvas_def p1 pn)
    have s: "southCanvas env order1 input = southCanvas env order2 input"
      by (simp add: southCanvas_def sh)
    show ?thesis
      by (simp add: GenerateChart_def GenerateNorthChart_def GenerateSouthChart_def n s)
  qed
  from a b show ?thesis by blast
qed

lemma swap_enumerates:
  assumes "k1 \<noteq> k2"
  shows "enumerates (map_of [(k1, v1), (k2, v2)]) [(k1, v1), (k2, v2)]"
    and "enumerates (map_of [(k1, v1), (k2, v2)]) [(k2, v2), (k1, v1)]"
  using assms by (auto simp add: enumerates_def fun_eq_iff)

theorem enumeration_order_witness:
  "validOrder
     (mkInput ChartTypeNorth
        [(''sun'', Some (mkPlanet ''aries'' False False)),
         (''moon'', Some (mkPlanet ''taurus'' False False))]
        (Some (mkPlanet ''aries'' False False)))
     (\<lambda>p. [(''sun'', Some (mkPlanet ''aries'' False False)),
            (''moon'', Some (mkPlanet ''taurus'' False False))])
   \<and> validOrder
     (mkInput ChartTypeNorth
        [(''sun'', Some (mkPlanet ''aries'' False False)),
         (''moon'', Some (mkPlanet ''taurus'' False False))]
        (Some (mkPlanet ''aries'' False False)))
     (\<lambda>p. [(''moon'', Some (mkPlanet ''taurus'' False False)),
            (''sun'', Some (mkPlanet ''aries'' False False))])
   \<and> onePlanetPerSign env0
     (mkInput ChartTypeNorth
        [(''sun'', Some (mkPlanet ''aries'' False False)),
         (''moon'', Some (mkPlanet ''taurus'' False False))]
        (Some (mkPlanet ''aries'' False False)))
   \<and> GenerateChart env0
       (\<lambda>p. [(''sun'', Some (mkPlanet ''aries'' False False)),
              (''moon'', Some (mkPlanet ''taurus'' False False))])
       (mkInput ChartTypeNorth
          [(''sun'', Some (mkPlanet ''aries'' False False)),
           (''moon'', Some (mkPlanet ''taurus'' False False))]
          (Some (mkPlanet ''aries'' False False)))
     = GenerateChart env0
       (\<lambda>p. [(''moon'', Some (mkPlanet ''taurus'' False False)),
              (''sun'', Some (mkPlanet ''aries'' False False))])
       (mkInput ChartTypeNorth
          [(''sun'', Some (mkPlanet ''aries'' False False)),
           (''moon'', Some (mkPlanet ''taurus'' False False))]
          (Some (mkPlanet ''aries'' False False)))"
proof -
  let ?sun = "Some (mkPlanet ''aries'' False False)"
  let ?moon = "Some (mkPlanet ''taurus'' False False)"
  let ?input = "mkInput ChartTypeNorth [(''sun'', ?sun), (''moon'', ?moon)] ?sun"
  have ne: "''sun'' \<noteq> ''moon''" by simp
  have pl: "Planets ?input = map_of [(''sun'', ?sun), (''moon'', ?moon)]"
    by (simp add: mkInput_def)
  have v1: "validOrder ?input (\<lambda>p. [(''sun'', ?sun), (''moon'', ?moon)])"
    unfolding validOrder_def pl by (intro allI swap_enumerates(1) [OF ne])
  have v2: "validOrder ?input (\<lambda>p. [(''moon'', ?moon), (''sun'', ?sun)])"
    unfolding validOrder_def pl by (intro allI swap_enumerates(2) [OF ne])
  have r: "RashiToNumber env0 ''aries'' = 1" "RashiToNumber env0 ''taurus'' = 2"
    by (simp_all add: registry_defs)
  have one: "onePlanetPerSign env0 ?input"
    unfolding onePlanetPerSign_def pl
    by (auto simp add: mkPlanet_def r split: if_splits)
  from enumeration_order [OF v1 v2, of env0] one
  have "GenerateChart env0 (\<lambda>p. [(''sun'', ?sun), (''moon'', ?moon)]) ?input
        = GenerateChart env0 (\<lambda>p. [(''moon'', ?moon), (''sun'', ?sun)]) ?input"
    by blast
  with v1 v2 one show ?thesis by (intro conjI)
qed

lemma inSequence_empty_steps: "inSequence (replicate n (Inr [])) = Inr []"
  by (induction n) simp_all

text \<open>
  With the Sun and the Moon both in Aries, the enumeration Sun, Moon stacks \<^verbatim>\<open>Su\<close>
  above \<^verbatim>\<open>Mo\<close> and the enumeration Moon, Sun stacks \<^verbatim>\<open>Mo\<close> above \<^verbatim>\<open>Su\<close>:
  the calls made on the context differ.
\<close>

theorem stacking_order_counterexample:
  "validOrder
     (mkInput ChartTypeNorth
        [(''sun'', Some (mkPlanet ''aries'' False False)),
         (''moon'', Some (mkPlanet ''aries'' False False))]
        (Some (mkPlanet ''aries'' False False)))
     (\<lambda>p. [(''sun'', Some (mkPlanet ''aries'' False False)),
            (''moon'', Some (mkPlanet ''aries'' False False))])
   \<and> validOrder
     (mkInput ChartTypeNorth
        [(''sun'', Some (mkPlanet ''aries'' False False)),
         (''moon'', Some (mkPlanet ''aries'' False False))]
        (Some (mkPlanet ''aries'' False False)))
     (\<lambda>p. [(''moon'', Some (mkPlanet ''aries'' False False)),
            (''sun'', Some (mkPlanet ''aries'' False False))])
   \<and> northOccupants env0
       (mkInput ChartTypeNorth
          [(''sun'', Some (mkPlanet ''aries'' False False)),
           (''moon'', Some (mkPlanet ''aries'' False False))]
          (Some (mkPlanet ''aries'' False False)))
       1 [(''sun'', Some (mkPlanet ''aries'' False False)),
          (''moon'', Some (mkPlanet ''aries'' False False))] 1
     = Inr ([''Asc'', ''Su'', ''Mo''], [])
   \<and> northOccupants env0
       (mkInput ChartTypeNorth
          [(''sun'', Some (mkPlanet ''aries'' False False)),
           (''moon'', Some (mkPlanet ''aries'' False False))]
          (Some (mkPlanet ''aries'' False False)))
       1 [(''moon'', Some (mkPlanet ''aries'' False False)),
          (''sun'', Some (mkPlanet ''aries'' False False))] 1
     = Inr ([''Asc'', ''Mo'', ''Su''], [])
   \<and> southOccupants env0
       (mkInput ChartTypeNorth
          [(''sun'', Some (mkPlanet ''aries'' False False)),
           (''moon'', Some (mkPlanet ''aries'' False False))]
          (Some (mkPlanet ''aries'' False False)))
       1 [(''sun'', Some (mkPlanet ''aries'' False False)),
          (''moon'', Some (mkPlanet ''aries'' False False))] 1
     = Inr ([''Asc'', ''Su'', ''Mo''], [])
   \<and> southOccupants env0
       (mkInput ChartTypeNorth
          [(''sun'', Some (mkPlanet ''aries'' False False)),
           (''moon'', Some (mkPlanet ''aries'' False False))]
          (Some (mkPlanet ''aries'' False False)))
       1 [(''moon'', Some (mkPlanet ''aries'' False False)),
          (''sun'', Some (mkPlanet ''aries'' False False))] 1
     = Inr ([''Asc'', ''Mo'', ''Su''], [])
   \<and> northCanvas env0
       (\<lambda>p. [(''sun'', Some (mkPlanet ''aries'' False False)),
              (''moon'', Some (mkPlanet ''aries'' False False))])
       (mkInput ChartTypeNorth
          [(''sun'', Some (mkPlanet ''aries'' False False)),
           (''moon'', Some (mkPlanet ''aries'' False False))]
          (Some (mkPlanet ''aries'' False False)))
     \<noteq> northCanvas env0
       (\<lambda>p. [(''moon'', Some (mkPlanet ''aries'' False False)),
              (''sun'', Some (mkPlanet ''aries'' False False))])
       (mkInput ChartTypeNorth
          [(''sun'', Some (mkPlanet ''aries'' False False)),
           (''moon'', Some (mkPlanet ''aries'' False False))]
          (Some (mkPlanet ''aries'' False False)))"
proof -
  let ?p = "Some (mkPlanet ''aries'' False False)"
  let ?a = "[(''sun'', ?p), (''moon'', ?p)]"
  let ?b = "[(''moon'', ?p), (''sun'', ?p)]"
  let ?input = "mkInput ChartTypeNorth ?a ?p"
  have ne: "''sun'' \<noteq> ''moon''" by simp
  have pl: "Planets ?input = map_of ?a"
    by (simp add: mkInput_def)
  have v1: "validOrder ?input (\<lambda>p. ?a)"
    unfolding validOrder_def pl by (intro allI swap_enumerates(1) [OF ne])
  have v2: "validOrder ?input (\<lambda>p. ?b)"
    unfolding validOrder_def pl by (intro allI swap_enumerates(2) [OF ne])
  have r: "RashiToNumber env0 ''aries'' = 1"
    by (simp add: registry_defs)
  have lb: "planetLabel env0 ''sun'' (mkPlanet ''aries'' False False) = ''Su''"
    "planetLabel env0 ''moon'' (mkPlanet ''aries'' False False) = ''Mo''"
    "GetPlanetDisplayName env0 ''lagna'' ?p = ''Asc''"
    by (simp_all add: registry_defs)
  have sp: "\<And>abbrev. \<not> IsSpecialLagnaAbbrev env0 abbrev ?input"
    by (simp add: env0_def)
  have rs: "Rashi (mkPlanet ''aries'' False False) = ''aries''"
    by (simp add: mkPlanet_def)
  have lg: "Lagna ?input = ?p" by (simp add: mkInput_def)
  have no: "northOccupants env0 ?input 1 ?a 1 = Inr ([''Asc'', ''Su'', ''Mo''], [])"
    "northOccupants env0 ?input 1 ?b 1 = Inr ([''Asc'', ''Mo'', ''Su''], [])"
    by (simp_all add: northOccupants_def lg rs r lb sp)
  have so: "southOccupants env0 ?input 1 ?a 1 = Inr ([''Asc'', ''Su'', ''Mo''], [])"
    "southOccupants env0 ?input 1 ?b 1 = Inr ([''Asc'', ''Mo'', ''Su''], [])"
    by (simp_all add: southOccupants_def lg rs r lb sp)
  have l: "lagnaRashiNum env0 ?input = 1"
    by (simp add: lagnaRashiNum_def lg rs r)
  have others: "\<And>es. es = ?a \<or> es = ?b \<Longrightarrow>
      map (northPosition env0 ?input 1 (\<lambda>p. es)) (enumerate 0 rashiPositions)
      = replicate 11 (Inr [])"
    by (auto simp add: rashiPositions_def northPosition_def northOccupants_def northDraw_def
        getRashiForPosition_def signed_modulo_int_def lg rs r eval_nat_numeral)
  have c: "northCanvas env0 (\<lambda>p. ?a) ?input \<noteq> northCanvas env0 (\<lambda>p. ?b) ?input"
    unfolding northCanvas_def Let_def l others [of ?a, simplified] others [of ?b, simplified]
    by (simp add: inSequence_empty_steps northPosition1_def getRashiForPosition_def no
          northDraw1_def drawLabels_def drawRegular_def drawSpecial_def)
  from v1 v2 no so c show ?thesis by (intro conjI)
qed

text \<open>
  The dependence on the enumeration does not rest on the predicate chosen for the concrete
  runs: with three planets in one sign, two of them share a group whatever the predicate
  is, and the reversed enumeration gives different groups.
\<close>

lemma order_dependence_any_predicate:
  "northOccupants (env0\<lparr>IsSpecialLagnaAbbrev := sp\<rparr>) input 1
     [(''sun'', Some (mkPlanet ''aries'' False False)),
      (''moon'', Some (mkPlanet ''aries'' False False)),
      (''mars'', Some (mkPlanet ''aries'' False False))] 1
   \<noteq> northOccupants (env0\<lparr>IsSpecialLagnaAbbrev := sp\<rparr>) input 1
     [(''mars'', Some (mkPlanet ''aries'' False False)),
      (''moon'', Some (mkPlanet ''aries'' False False)),
      (''sun'', Some (mkPlanet ''aries'' False False))] 1"
proof -
  let ?env = "env0\<lparr>IsSpecialLagnaAbbrev := sp\<rparr>"
  have r: "RashiToNumber ?env (Rashi (mkPlanet ''aries'' False False)) = 1"
    by (simp add: registry_defs)
  have lb: "planetLabel ?env ''sun'' (mkPlanet ''aries'' False False) = ''Su''"
    "planetLabel ?env ''moon'' (mkPlanet ''aries'' False False) = ''Mo''"
    "planetLabel ?env ''mars'' (mkPlanet ''aries'' False False) = ''Ma''"
    by (simp_all add: registry_defs)
  have i: "IsSpecialLagnaAbbrev ?env = sp" by simp
  show ?thesis
    unfolding northOccupants_def
    by (cases "sp ''Su'' input"; cases "sp ''Mo'' input"; cases "sp ''Ma'' input")
       (simp_all add: r lb i del: env.simps)
qed

end
